theory Spec2Isabelle
  imports Complex_Main "HOL-Library.AList"
begin

section \<open>Python values used by the summarizers\<close>

text \<open>
  The development embeds \<^verbatim>\<open>backend/core/agentic_summarizer.py\<close> (the multi-agent
  pipeline and its composition primitives) and the parts of
  \<^verbatim>\<open>backend/core/ai_summarizer.py\<close> (the lightweight summarizer) that the properties
  below are about.

  A Python \<^verbatim>\<open>str\<close> is a list of Unicode code points, so that \<open>length\<close> is Python's
  \<^verbatim>\<open>len\<close>. ASCII literals are written \<open>ascii ''...''\<close>; other literals are given by
  their code points.
\<close>

type_synonym ustring = "nat list"

definition ascii :: "string \<Rightarrow> ustring" where
  "ascii s = map of_char s"

text \<open>
  Exceptions. Every exception raised in the modelled code is an instance of
  \<^verbatim>\<open>Exception\<close>, which is what the handlers of the source catch. \<open>Raised m\<close> is an
  exception raised by a stage with message \<open>m\<close>; the others are raised by the interpreter.
\<close>

datatype error = AttributeError | TypeError | KeyError | Raised ustring

text \<open>
  A retrieved result record arrives from the caller and may be malformed; its values are
  modelled dynamically (\<^verbatim>\<open>None\<close>, integers, strings, lists and dictionaries).
\<close>

datatype pyval = PNone | PInt int | PStr ustring | PList "pyval list" | PDict "(ustring \<times> pyval) list"

text \<open>The dictionaries the stages build for a processed result and a scored sentence.\<close>

record processed_result =
  pr_title :: ustring
  pr_snippet :: ustring
  pr_source :: pyval
  pr_position :: nat
  pr_relevance_score :: rat

record sentence =
  s_text :: ustring
  s_score :: rat
  s_source :: pyval
  s_position :: nat

text \<open>
  The context is a \<^verbatim>\<open>Dict[str, Any]\<close>: an insertion-ordered dictionary, modelled as an
  association list updated with \<open>AList.update\<close>. Its values have the shapes the pipeline
  writes; \<open>VErr e\<close> stands for the string \<^verbatim>\<open>str(e)\<close> of an exception, and \<open>VRef a\<close> for a
  reference to a mutable object held at address \<open>a\<close> of the store (used for what
  \<^verbatim>\<open>dict.copy()\<close> shares between the copies). Floats are idealised as rationals.
\<close>

datatype cval =
    VStr ustring
  | VInt int
  | VNum rat
  | VRaw "pyval list"
  | VProcessed "processed_result list"
  | VSentences "sentence list"
  | VThemes "(ustring \<times> nat) list"
  | VStrs "ustring list"
  | VErr error
  | VDict "(ustring \<times> cval) list"
  | VRef nat

type_synonym ctxt = "(ustring \<times> cval) list"

type_synonym store = "nat \<Rightarrow> cval"

definition and_then :: "error + 'a \<Rightarrow> ('a \<Rightarrow> error + 'b) \<Rightarrow> error + 'b" where
  "and_then m f = (case m of Inl e \<Rightarrow> Inl e | Inr x \<Rightarrow> f x)"

definition dict_get :: "('k \<times> 'v) list \<Rightarrow> 'k \<Rightarrow> 'v \<Rightarrow> 'v" where
  "dict_get d k dflt = (case map_of d k of Some v \<Rightarrow> v | None \<Rightarrow> dflt)"

text \<open>
  \<^verbatim>\<open>context.get(key, default)\<close> followed by the use the stage makes of the value. A value
  of another shape than the one the pipeline writes under that key is outside the typed
  context; the getters raise \<open>TypeError\<close> there.
\<close>

definition get_str :: "ctxt \<Rightarrow> ustring \<Rightarrow> ustring \<Rightarrow> error + ustring" where
  "get_str c k dflt = (case map_of c k of None \<Rightarrow> Inr dflt | Some (VStr s) \<Rightarrow> Inr s | Some _ \<Rightarrow> Inl TypeError)"

definition get_num :: "ctxt \<Rightarrow> ustring \<Rightarrow> rat \<Rightarrow> error + rat" where
  "get_num c k dflt = (case map_of c k of None \<Rightarrow> Inr dflt | Some (VNum q) \<Rightarrow> Inr q | Some _ \<Rightarrow> Inl TypeError)"

definition get_raw :: "ctxt \<Rightarrow> ustring \<Rightarrow> error + pyval list" where
  "get_raw c k = (case map_of c k of None \<Rightarrow> Inr [] | Some (VRaw rs) \<Rightarrow> Inr rs | Some _ \<Rightarrow> Inl TypeError)"

definition get_processed :: "ctxt \<Rightarrow> ustring \<Rightarrow> error + processed_result list" where
  "get_processed c k = (case map_of c k of None \<Rightarrow> Inr [] | Some (VProcessed ps) \<Rightarrow> Inr ps | Some _ \<Rightarrow> Inl TypeError)"

definition get_sentences :: "ctxt \<Rightarrow> ustring \<Rightarrow> error + sentence list" where
  "get_sentences c k = (case map_of c k of None \<Rightarrow> Inr [] | Some (VSentences ss) \<Rightarrow> Inr ss | Some _ \<Rightarrow> Inl TypeError)"

definition get_themes :: "ctxt \<Rightarrow> ustring \<Rightarrow> error + (ustring \<times> nat) list" where
  "get_themes c k = (case map_of c k of None \<Rightarrow> Inr [] | Some (VThemes ts) \<Rightarrow> Inr ts | Some _ \<Rightarrow> Inl TypeError)"

definition get_strs :: "ctxt \<Rightarrow> ustring \<Rightarrow> error + ustring list" where
  "get_strs c k = (case map_of c k of None \<Rightarrow> Inr [] | Some (VStrs xs) \<Rightarrow> Inr xs | Some _ \<Rightarrow> Inl TypeError)"

definition get_dict :: "ctxt \<Rightarrow> ustring \<Rightarrow> error + ctxt" where
  "get_dict c k = (case map_of c k of None \<Rightarrow> Inr [] | Some (VDict d) \<Rightarrow> Inr d | Some _ \<Rightarrow> Inl TypeError)"

section \<open>String operations of the Python runtime\<close>

text \<open>
  \<open>is_space\<close> is the whitespace of \<^verbatim>\<open>str.split()\<close>, \<^verbatim>\<open>str.strip()\<close> and the
  regular expression class \<^verbatim>\<open>\s\<close>. Lower-casing (\<^verbatim>\<open>str.lower\<close>) and the class
  \<^verbatim>\<open>\w\<close> depend on the Unicode tables of the interpreter; they are parameters of the
  model, collected in \<open>pyrt\<close>. \<open>ascii_rt\<close> is their restriction to ASCII text.
\<close>

definition is_space :: "nat \<Rightarrow> bool" where
  "is_space c = ((9 \<le> c \<and> c \<le> 13) \<or> (28 \<le> c \<and> c \<le> 32) \<or> c = 133 \<or> c = 160 \<or> c = 5760
      \<or> (8192 \<le> c \<and> c \<le> 8202) \<or> c = 8232 \<or> c = 8233 \<or> c = 8239 \<or> c = 8287 \<or> c = 12288)"

record pyrt =
  lower :: "ustring \<Rightarrow> ustring"
  is_word :: "nat \<Rightarrow> bool"

definition ascii_rt :: pyrt where
  "ascii_rt = \<lparr> lower = map (\<lambda>c. if 65 \<le> c \<and> c \<le> 90 then c + 32 else c),
               is_word = (\<lambda>c. (48 \<le> c \<and> c \<le> 57) \<or> (65 \<le> c \<and> c \<le> 90) \<or> c = 95 \<or> (97 \<le> c \<and> c \<le> 122)) \<rparr>"

definition strip :: "ustring \<Rightarrow> ustring" where
  "strip s = rev (dropWhile is_space (rev (dropWhile is_space s)))"

text \<open>The maximal runs of characters satisfying \<open>P\<close>, left to right.\<close>

fun tokens :: "(nat \<Rightarrow> bool) \<Rightarrow> ustring \<Rightarrow> ustring \<Rightarrow> ustring list" where
  "tokens P cur [] = (if cur = [] then [] else [cur])"
| "tokens P cur (c # cs) =
     (if P c then tokens P (cur @ [c]) cs
      else if cur = [] then tokens P [] cs
      else cur # tokens P [] cs)"

text \<open>\<^verbatim>\<open>s.split()\<close>\<close>

definition py_split :: "ustring \<Rightarrow> ustring list" where
  "py_split s = tokens (\<lambda>c. \<not> is_space c) [] s"

text \<open>\<^verbatim>\<open>re.findall(r'\w+', s)\<close>\<close>

definition findall_words :: "pyrt \<Rightarrow> ustring \<Rightarrow> ustring list" where
  "findall_words rt s = tokens (is_word rt) [] s"

text \<open>
  Splitting at every separator character, empty pieces included:
  \<^verbatim>\<open>s.split('.')\<close> and \<^verbatim>\<open>re.split(r'[...]', s)\<close> for a character class.
\<close>

fun split_at :: "(nat \<Rightarrow> bool) \<Rightarrow> ustring \<Rightarrow> ustring \<Rightarrow> ustring list" where
  "split_at P cur [] = [cur]"
| "split_at P cur (c # cs) = (if P c then cur # split_at P [] cs else split_at P (cur @ [c]) cs)"

text \<open>\<^verbatim>\<open>re.sub(r'\s+', ' ', s)\<close>; the flag says that the previous character was whitespace.\<close>

fun collapse_ws :: "bool \<Rightarrow> ustring \<Rightarrow> ustring" where
  "collapse_ws in_ws [] = []"
| "collapse_ws in_ws (c # cs) =
     (if is_space c then (if in_ws then collapse_ws True cs else 32 # collapse_ws True cs)
      else c # collapse_ws False cs)"

text \<open>\<^verbatim>\<open>sep.join(parts)\<close>\<close>

fun join :: "ustring \<Rightarrow> ustring list \<Rightarrow> ustring" where
  "join sep [] = []"
| "join sep [x] = x"
| "join sep (x # y # ys) = x @ sep @ join sep (y # ys)"

text \<open>\<^verbatim>\<open>w in t\<close> for strings: \<open>w\<close> occurs in \<open>t\<close>.\<close>

fun contains :: "ustring \<Rightarrow> ustring \<Rightarrow> bool" where
  "contains [] w = (w = [])"
| "contains (c # cs) w = (take (length w) (c # cs) = w \<or> contains cs w)"

text \<open>\<^verbatim>\<open>str(n)\<close> for a natural number.\<close>

function str_of_nat :: "nat \<Rightarrow> ustring" where
  "str_of_nat n = (if n < 10 then [48 + n] else str_of_nat (n div 10) @ [48 + n mod 10])"
  by pat_completeness auto
termination
  by (relation "measure id") auto

declare str_of_nat.simps [simp del]

text \<open>\<^verbatim>\<open>xs[:n]\<close>, for a negative \<open>n\<close> too.\<close>

definition slice_to :: "'a list \<Rightarrow> int \<Rightarrow> 'a list" where
  "slice_to xs n = (if 0 \<le> n then take (nat n) xs else take (nat (int (length xs) + n)) xs)"

text \<open>\<^verbatim>\<open>len(set(a) & set(b))\<close> for lists without duplicates.\<close>

definition overlap_count :: "ustring list \<Rightarrow> ustring list \<Rightarrow> nat" where
  "overlap_count a b = length (filter (\<lambda>w. w \<in> set b) a)"

fun truthy :: "pyval \<Rightarrow> bool" where
  "truthy PNone = False"
| "truthy (PInt n) = (n \<noteq> 0)"
| "truthy (PStr s) = (s \<noteq> [])"
| "truthy (PList xs) = (xs \<noteq> [])"
| "truthy (PDict d) = (d \<noteq> [])"

fun hashable :: "pyval \<Rightarrow> bool" where
  "hashable (PList xs) = False"
| "hashable (PDict d) = False"
| "hashable v = True"

text \<open>\<^verbatim>\<open>result.get(key, default)\<close> on a value that should be a dictionary.\<close>

fun py_get :: "pyval \<Rightarrow> ustring \<Rightarrow> pyval \<Rightarrow> error + pyval" where
  "py_get (PDict d) k dflt = Inr (dict_get d k dflt)"
| "py_get v k dflt = Inl AttributeError"

text \<open>\<^verbatim>\<open>v.lower()\<close> on a value that should be a string.\<close>

fun py_lower :: "pyrt \<Rightarrow> pyval \<Rightarrow> error + ustring" where
  "py_lower rt (PStr s) = Inr (lower rt s)"
| "py_lower rt v = Inl AttributeError"

section \<open>Composition primitives\<close>

text \<open>
  \<^verbatim>\<open>BaseAgent\<close>, \<^verbatim>\<open>SequentialAgent\<close> and \<^verbatim>\<open>ParallelAgent\<close>. An agent has a name and
  sub-agents; a leaf agent (\<open>Stage\<close>) has its own \<^verbatim>\<open>run_async\<close>. A stage receives the
  context and either raises or returns the context it was given, updated. The store holds
  the objects the context's values refer to: a stage may change them in place, and those
  changes persist when it raises.

  The stages of the source never suspend, so the tasks that \<^verbatim>\<open>ParallelAgent\<close> creates
  run one after the other in creation order when the composer first awaits; \<open>run_tasks\<close>
  runs them so. Each task gets \<^verbatim>\<open>context.copy()\<close>, a copy of the top-level bindings that
  shares the objects of the store.

  This order is the program's order when every child of the parallel composer is a leaf
  stage, which is the shape of the pipeline (\<^verbatim>\<open>ContentAnalyzer\<close> beside
  \<^verbatim>\<open>InsightExtractor\<close>). A child that is itself a non-empty \<^verbatim>\<open>ParallelAgent\<close>, or
  contains one, suspends at its own \<^verbatim>\<open>await task\<close>, and the event loop then runs the
  later siblings before the nested child's stages; \<open>run_tasks\<close> does not follow that
  order. The laws of the parallel composer are therefore stated for leaf children only
  (\<open>is_stage\<close> below).
\<close>

type_synonym stage_fn = "store \<Rightarrow> ctxt \<Rightarrow> store \<times> (error + ctxt)"

datatype agent =
    Stage ustring stage_fn
  | SequentialAgent ustring "agent list"
  | ParallelAgent ustring "agent list"

fun agent_name :: "agent \<Rightarrow> ustring" where
  "agent_name (Stage n f) = n"
| "agent_name (SequentialAgent n subs) = n"
| "agent_name (ParallelAgent n subs) = n"

text \<open>
  A leaf agent: a stage with its own \<^verbatim>\<open>run_async\<close>, which never awaits and so runs to
  completion once its task is started.
\<close>

fun is_stage :: "agent \<Rightarrow> bool" where
  "is_stage (Stage n f) = True"
| "is_stage (SequentialAgent n subs) = False"
| "is_stage (ParallelAgent n subs) = False"

text \<open>What \<^verbatim>\<open>ParallelAgent\<close> stores for a task: its context, or \<^verbatim>\<open>{'error': str(e)}\<close>.\<close>

fun result_value :: "error + ctxt \<Rightarrow> cval" where
  "result_value (Inr c) = VDict c"
| "result_value (Inl e) = VDict [(ascii ''error'', VErr e)]"

fun collect_results :: "(ustring \<times> (error + ctxt)) list \<Rightarrow> (ustring \<times> cval) list \<Rightarrow> (ustring \<times> cval) list" where
  "collect_results [] results = results"
| "collect_results ((n, r) # ts) results = collect_results ts (AList.update n (result_value r) results)"

fun run_async :: "agent \<Rightarrow> store \<Rightarrow> ctxt \<Rightarrow> store \<times> (error + ctxt)"
and run_sequential :: "agent list \<Rightarrow> store \<Rightarrow> ctxt \<Rightarrow> store \<times> (error + ctxt)"
and run_tasks :: "agent list \<Rightarrow> store \<Rightarrow> ctxt \<Rightarrow> store \<times> (ustring \<times> (error + ctxt)) list"
where
  "run_async (Stage n f) h c = f h c"
| "run_async (SequentialAgent n subs) h c = run_sequential subs h c"
| "run_async (ParallelAgent n subs) h c =
     (if subs = [] then (h, Inr c)
      else (case run_tasks subs h c of
              (h', tasks) \<Rightarrow>
                (h', Inr (AList.update (ascii ''parallel_results'') (VDict (collect_results tasks [])) c))))"
| "run_sequential [] h c = (h, Inr c)"
| "run_sequential (a # as) h c =
     (case run_async a h c of
        (h', Inl e) \<Rightarrow> (h', Inl e)
      | (h', Inr c') \<Rightarrow> run_sequential as h' c')"
| "run_tasks [] h c = (h, [])"
| "run_tasks (a # as) h c =
     (case run_async a h c of
        (h', r) \<Rightarrow> (case run_tasks as h' c of (h'', rs) \<Rightarrow> (h'', (agent_name a, r) # rs)))"

definition parallel_results_key :: ustring where
  "parallel_results_key = ascii ''parallel_results''"

text \<open>
  The outcome of the \<open>i\<close>-th child of a parallel composer whose children are leaf
  stages: the child run on the incoming context and on the store as the children created
  before it left it.
\<close>

definition branch_outcome :: "agent list \<Rightarrow> store \<Rightarrow> ctxt \<Rightarrow> nat \<Rightarrow> error + ctxt" where
  "branch_outcome subs h c i = snd (run_async (subs ! i) (fst (run_tasks (take i subs) h c)) c)"

text \<open>A stage of the source: it works on the context alone and leaves the store as it is.\<close>

definition pure_stage :: "(ctxt \<Rightarrow> error + ctxt) \<Rightarrow> stage_fn" where
  "pure_stage f = (\<lambda>h c. (h, f c))"

text \<open>Example stages, used to exercise the composers.\<close>

definition failing_stage :: agent where
  "failing_stage = Stage (ascii ''Failing'') (\<lambda>h c. (h, Inl (Raised (ascii ''boom''))))"

definition marker_stage :: agent where
  "marker_stage = Stage (ascii ''Marker'') (\<lambda>h c. (h, Inr (AList.update (ascii ''done'') (VInt 1) c)))"

text \<open>\<^verbatim>\<open>context['shared'].append('x'); return context\<close>\<close>

definition appender_stage :: agent where
  "appender_stage = Stage (ascii ''Appender'')
     (\<lambda>h c. case map_of c (ascii ''shared'') of
               Some (VRef a) \<Rightarrow>
                 (case h a of
                    VStrs xs \<Rightarrow> (h(a := VStrs (xs @ [ascii ''x''])), Inr c)
                  | _ \<Rightarrow> (h, Inl AttributeError))
             | _ \<Rightarrow> (h, Inl KeyError))"

text \<open>\<^verbatim>\<open>context['seen'] = list(context['shared']); return context\<close>\<close>

definition reader_stage :: agent where
  "reader_stage = Stage (ascii ''Reader'')
     (\<lambda>h c. case map_of c (ascii ''shared'') of
               Some (VRef a) \<Rightarrow> (h, Inr (AList.update (ascii ''seen'') (h a) c))
             | _ \<Rightarrow> (h, Inl KeyError))"

definition empty_store :: store where
  "empty_store = (\<lambda>a. VStrs [])"

definition shared_ctxt :: ctxt where
  "shared_ctxt = [(ascii ''shared'', VRef 0)]"

section \<open>DataFetcherAgent\<close>

text \<open>
  \<^verbatim>\<open>re.sub(r'https?://\S+', '', text)\<close>. A match is a maximal run of non-whitespace
  characters that starts with \<^verbatim>\<open>http://\<close> or \<^verbatim>\<open>https://\<close> followed by at least one
  non-whitespace character; the flag says that the scan is inside a match.
\<close>

definition url_at :: "ustring \<Rightarrow> bool" where
  "url_at s = ((take 7 s = ascii ''http://'' \<and> 7 < length s \<and> \<not> is_space (s ! 7))
             \<or> (take 8 s = ascii ''https://'' \<and> 8 < length s \<and> \<not> is_space (s ! 8)))"

fun strip_urls :: "bool \<Rightarrow> ustring \<Rightarrow> ustring" where
  "strip_urls in_url [] = []"
| "strip_urls in_url (c # cs) =
     (if in_url \<and> \<not> is_space c then strip_urls True cs
      else if url_at (c # cs) then strip_urls True cs
      else c # strip_urls False cs)"

definition clean_text :: "pyval \<Rightarrow> error + ustring" where
  "clean_text v =
     (if \<not> truthy v then Inr []
      else (case v of
              PStr s \<Rightarrow> Inr (strip (strip_urls False (collapse_ws False s)))
            | _ \<Rightarrow> Inl TypeError))"

definition calculate_initial_relevance :: "pyrt \<Rightarrow> pyval \<Rightarrow> ustring \<Rightarrow> error + rat" where
  "calculate_initial_relevance rt result query =
     and_then (py_get result (ascii ''title'') (PStr [])) (\<lambda>t.
     and_then (py_lower rt t) (\<lambda>title.
     and_then (py_get result (ascii ''snippet'') (PStr [])) (\<lambda>s.
     and_then (py_lower rt s) (\<lambda>snippet.
       let query_words = remdups (py_split (lower rt query));
           title_matches = length (filter (contains title) query_words);
           snippet_matches = length (filter (contains snippet) query_words)
       in if length query_words = 0 then Inr (1 / 2)
          else Inr (min (of_nat (title_matches * 2 + snippet_matches) / of_nat (length query_words * 3)) 1)))))"

definition process_result :: "pyrt \<Rightarrow> ustring \<Rightarrow> nat \<Rightarrow> pyval \<Rightarrow> error + processed_result" where
  "process_result rt query idx result =
     and_then (py_get result (ascii ''title'') (PStr [])) (\<lambda>t.
     and_then (clean_text t) (\<lambda>title.
     and_then (py_get result (ascii ''snippet'') (PStr [])) (\<lambda>s.
     and_then (clean_text s) (\<lambda>snippet.
     and_then (py_get result (ascii ''source'') (PStr (ascii ''unknown''))) (\<lambda>src.
     and_then (calculate_initial_relevance rt result query) (\<lambda>relevance.
       Inr \<lparr> pr_title = title, pr_snippet = snippet, pr_source = src, pr_position = idx,
             pr_relevance_score = relevance \<rparr>))))))"

fun process_results :: "pyrt \<Rightarrow> ustring \<Rightarrow> nat \<Rightarrow> pyval list \<Rightarrow> error + processed_result list" where
  "process_results rt query idx [] = Inr []"
| "process_results rt query idx (result # rest) =
     and_then (process_result rt query idx result) (\<lambda>p.
     and_then (process_results rt query (Suc idx) rest) (\<lambda>ps. Inr (p # ps)))"

definition data_fetcher_run :: "pyrt \<Rightarrow> ustring \<Rightarrow> ctxt \<Rightarrow> error + ctxt" where
  "data_fetcher_run rt now context =
     and_then (get_raw context (ascii ''search_results'')) (\<lambda>search_results.
     and_then (get_str context (ascii ''query'') []) (\<lambda>query.
     and_then (get_str context (ascii ''language'') (ascii ''english'')) (\<lambda>language.
     and_then (process_results rt query 0 search_results) (\<lambda>processed_results.
       Inr (AList.update (ascii ''fetch_timestamp'') (VStr now)
             (AList.update (ascii ''processed_results'') (VProcessed processed_results) context))))))"

section \<open>ContentAnalyzerAgent\<close>

definition is_sentence_end :: "nat \<Rightarrow> bool" where
  "is_sentence_end c = (c = 46 \<or> c = 33 \<or> c = 63 \<or> c = 2404 \<or> c = 2405)"

definition extract_sentences :: "ustring \<Rightarrow> ustring list" where
  "extract_sentences t = filter (\<lambda>s. s \<noteq> []) (map strip (split_at is_sentence_end [] t))"

definition score_sentence :: "pyrt \<Rightarrow> ustring \<Rightarrow> ustring \<Rightarrow> nat \<Rightarrow> ustring \<Rightarrow> rat" where
  "score_sentence rt sentence query position language =
     (let position_score = max 0 ((5 - of_nat position) / 5) * (3 / 10);
          words = py_split sentence;
          length_score = min (of_nat (length words) / 15) 1 * (2 / 10);
          query_words = remdups (py_split (lower rt query));
          sentence_words = remdups (py_split (lower rt sentence));
          keyword_score =
            (if query_words \<noteq> []
             then of_nat (overlap_count query_words sentence_words) / of_nat (length query_words) * (5 / 10)
             else 0)
      in min (position_score + length_score + keyword_score) 1)"

definition stop_words :: "(ustring \<times> ustring list) list" where
  "stop_words =
    [(ascii ''english'', [ascii ''the'', ascii ''a'', ascii ''an'', ascii ''and'', ascii ''or'',
      ascii ''but'', ascii ''in'', ascii ''on'', ascii ''at'', ascii ''to'', ascii ''for'',
      ascii ''of'', ascii ''with'', ascii ''by'']),
     (ascii ''hindi'', [[2325, 2366], [2325, 2375], [2325, 2379], [2350, 2375, 2306], [2324,
      2352], [2351, 2366], [2360, 2375], [2346, 2352], [2361, 2376], [2361, 2376, 2306]]),
     (ascii ''telugu'', [[3118, 3120, 3135, 3119, 3137], [3122, 3143, 3110, 3134], [3122, 3147],
      [3114, 3144], [3093, 3147, 3128, 3074], [3108, 3147], [3079, 3110, 3135], [3077, 3110,
      3135]]),
     (ascii ''marathi'', [[2310, 2339, 2367], [2325, 2367, 2306, 2357, 2366], [2350, 2343, 2381,
      2351, 2375], [2357, 2352], [2360, 2366, 2336, 2368], [2360, 2379, 2348, 2340], [2361, 2375],
      [2340, 2375]])]"

definition extract_themes :: "pyrt \<Rightarrow> ustring \<Rightarrow> ustring \<Rightarrow> ustring list" where
  "extract_themes rt sentence language =
     (let words = findall_words rt (lower rt sentence);
          relevant_words = filter (\<lambda>w. 3 < length w \<and> w \<notin> set (dict_get stop_words language [])) words
      in take 3 relevant_words)"

text \<open>
  \<^verbatim>\<open>re.findall(r'\b[A-Z][a-z]+\b', sentence)\<close>: the word boundaries make a match a whole
  maximal run of word characters, so the matches are the runs of that shape.
\<close>

definition is_capitalized :: "ustring \<Rightarrow> bool" where
  "is_capitalized w =
     (case w of
        [] \<Rightarrow> False
      | c # cs \<Rightarrow> 65 \<le> c \<and> c \<le> 90 \<and> cs \<noteq> [] \<and> list_all (\<lambda>d. 97 \<le> d \<and> d \<le> 122) cs)"

definition extract_entities :: "pyrt \<Rightarrow> ustring \<Rightarrow> ustring list" where
  "extract_entities rt sentence = filter is_capitalized (findall_words rt sentence)"

text \<open>\<^verbatim>\<open>Counter\<close>: counts in order of first insertion; \<^verbatim>\<open>most_common(n)\<close> is stable.\<close>

definition counter_add :: "ustring \<Rightarrow> (ustring \<times> nat) list \<Rightarrow> (ustring \<times> nat) list" where
  "counter_add w cnt = AList.update w (case map_of cnt w of None \<Rightarrow> 1 | Some k \<Rightarrow> Suc k) cnt"

definition most_common :: "nat \<Rightarrow> (ustring \<times> nat) list \<Rightarrow> (ustring \<times> nat) list" where
  "most_common n cnt = take n (sort_key (\<lambda>p. - int (snd p)) cnt)"

type_synonym analysis = "sentence list \<times> (ustring \<times> nat) list \<times> ustring list"

definition analyze_sentence :: "pyrt \<Rightarrow> ustring \<Rightarrow> ustring \<Rightarrow> processed_result \<Rightarrow> ustring \<Rightarrow> analysis \<Rightarrow> analysis" where
  "analyze_sentence rt query language result s acc =
     (case acc of
        (sentences, themes, entities) \<Rightarrow>
          if 4 < length (py_split s)
          then (sentences @ [\<lparr> s_text = s, s_score = score_sentence rt s query (pr_position result) language,
                               s_source = pr_source result, s_position = pr_position result \<rparr>],
                fold counter_add (extract_themes rt s language) themes,
                entities @ extract_entities rt s)
          else acc)"

definition analyze_result :: "pyrt \<Rightarrow> ustring \<Rightarrow> ustring \<Rightarrow> processed_result \<Rightarrow> analysis \<Rightarrow> analysis" where
  "analyze_result rt query language result acc =
     fold (analyze_sentence rt query language result)
          (extract_sentences (pr_title result @ ascii ''. '' @ pr_snippet result)) acc"

text \<open>
  \<^verbatim>\<open>list(set(entities))\<close> has no specified order in Python; the model keeps one
  occurrence of every entity, in the order of the list.
\<close>

definition content_analyzer_run :: "pyrt \<Rightarrow> ustring \<Rightarrow> ctxt \<Rightarrow> error + ctxt" where
  "content_analyzer_run rt now context =
     and_then (get_processed context (ascii ''processed_results'')) (\<lambda>processed_results.
     and_then (get_str context (ascii ''query'') []) (\<lambda>query.
     and_then (get_str context (ascii ''language'') (ascii ''english'')) (\<lambda>language.
       (case fold (analyze_result rt query language) processed_results ([], [], []) of
          (sentences, themes, entities) \<Rightarrow>
            Inr (AList.update (ascii ''analysis_timestamp'') (VStr now)
                 (AList.update (ascii ''entities'') (VStrs (remdups entities))
                 (AList.update (ascii ''themes'') (VThemes (most_common 10 themes))
                 (AList.update (ascii ''analyzed_sentences'')
                    (VSentences (sort_key (\<lambda>s. - s_score s) sentences)) context))))))))"

section \<open>SummaryGeneratorAgent\<close>

definition extract_themes_from_text :: "pyrt \<Rightarrow> ustring \<Rightarrow> ustring list" where
  "extract_themes_from_text rt t = take 3 (filter (\<lambda>w. 4 < length w) (findall_words rt (lower rt t)))"

text \<open>
  The loop of \<^verbatim>\<open>_select_summary_sentences\<close> over the candidates, with its three
  variables. Looking a source up in \<^verbatim>\<open>used_sources\<close> hashes it, which raises for a list
  or a dictionary.
\<close>

fun select_loop :: "pyrt \<Rightarrow> sentence list \<Rightarrow> sentence list \<Rightarrow> pyval list \<Rightarrow> ustring list \<Rightarrow> error + sentence list" where
  "select_loop rt [] selected used_sources theme_coverage = Inr selected"
| "select_loop rt (sentence_data # rest) selected used_sources theme_coverage =
     (if 3 \<le> length selected then Inr selected
      else if \<not> hashable (s_source sentence_data) then Inl TypeError
      else
        let src = s_source sentence_data;
            sentence_themes = remdups (extract_themes_from_text rt (s_text sentence_data));
            source_diversity = (src \<notin> set used_sources \<or> length selected < 2);
            theme_diversity = (\<not> list_ex (\<lambda>t. t \<in> set theme_coverage) sentence_themes \<or> length selected < 2)
        in if source_diversity \<and> (theme_diversity \<or> 7 / 10 < s_score sentence_data)
           then select_loop rt rest (selected @ [sentence_data]) (src # used_sources)
                  (theme_coverage @ sentence_themes)
           else select_loop rt rest selected used_sources theme_coverage)"

definition select_summary_sentences :: "pyrt \<Rightarrow> sentence list \<Rightarrow> (ustring \<times> nat) list \<Rightarrow> error + sentence list" where
  "select_summary_sentences rt sentences themes =
     (if sentences = [] then Inr [] else select_loop rt (take 10 sentences) [] [] [])"

definition no_content_messages :: "(ustring \<times> ustring) list" where
  "no_content_messages =
    [(ascii ''hindi'', [2346, 2352, 2381, 2351, 2366, 2346, 2381, 2340, 32, 2360, 2366, 2350,
      2327, 2381, 2352, 2368, 32, 2313, 2346, 2354, 2348, 2381, 2343, 32, 2344, 2361, 2368, 2306,
      32, 2361, 2376, 2404]),
     (ascii ''telugu'', [3108, 3095, 3135, 3112, 32, 3093, 3074, 3103, 3142, 3074, 3103, 3149,
      32, 3077, 3074, 3110, 3137, 3116, 3134, 3103, 3137, 3122, 3147, 32, 3122, 3143, 3110, 3137,
      2404]),
     (ascii ''marathi'', [2346, 2369, 2352, 2375, 2358, 2368, 32, 2360, 2366, 2350, 2327, 2381,
      2352, 2368, 32, 2313, 2346, 2354, 2348, 2381, 2343, 32, 2344, 2366, 2361, 2368, 2404]),
     (ascii ''english'', ascii ''Insufficient content available.'')]"

definition get_or_english :: "(ustring \<times> 'a list) list \<Rightarrow> ustring \<Rightarrow> 'a list" where
  "get_or_english messages language =
     (case map_of messages language of
        Some m \<Rightarrow> m
      | None \<Rightarrow> (case map_of messages (ascii ''english'') of Some m \<Rightarrow> m | None \<Rightarrow> []))"

definition get_no_content_message :: "ustring \<Rightarrow> ustring" where
  "get_no_content_message language = get_or_english no_content_messages language"

definition max_length :: nat where
  "max_length = 400"

definition ellipsis_marker :: ustring where
  "ellipsis_marker = ascii ''...''"

text \<open>The loop that cuts the summary at a full stop.\<close>

fun cut_loop :: "ustring \<Rightarrow> ustring list \<Rightarrow> ustring" where
  "cut_loop cut_summary [] = cut_summary"
| "cut_loop cut_summary (s # rest) =
     (if max_length < length (cut_summary @ s) then cut_summary
      else cut_loop (cut_summary @ s @ ascii ''. '') rest)"


definition ends_with_dot :: "ustring \<Rightarrow> bool" where
  "ends_with_dot s = (s \<noteq> [] \<and> last s = 46)"

definition joined_summary :: "sentence list \<Rightarrow> ustring" where
  "joined_summary sentences = collapse_ws False (join (ascii '' '') (map (\<lambda>s. strip (s_text s)) sentences))"

definition compose_summary :: "sentence list \<Rightarrow> ustring \<Rightarrow> ustring" where
  "compose_summary sentences language =
     (if sentences = [] then get_no_content_message language
      else
        let summary = joined_summary sentences
        in if max_length < length summary
           then (let cut = strip (cut_loop [] (split_at (\<lambda>c. c = 46) [] summary))
                 in if ends_with_dot cut then cut else cut @ ellipsis_marker)
           else summary)"

definition prefixes :: "(ustring \<times> ustring) list" where
  "prefixes =
    [(ascii ''hindi'', [128221] @ ascii '' **AI '' @ [2360, 2366, 2352, 2366, 2306, 2358]
      @ ascii ''**: ''),
     (ascii ''telugu'', [128221] @ ascii '' **AI '' @ [3128, 3134, 3120, 3134, 3074, 3126, 3074]
      @ ascii ''**: ''),
     (ascii ''marathi'', [128221] @ ascii '' **AI '' @ [2360, 2366, 2352, 2366, 2306, 2358]
      @ ascii ''**: ''),
     (ascii ''english'', [128221] @ ascii '' **AI Summary**: '')]"

definition format_summary_for_language :: "ustring \<Rightarrow> ustring \<Rightarrow> ustring" where
  "format_summary_for_language summary language =
     dict_get prefixes language ([128221] @ ascii '' **AI Summary**: '') @ summary"

definition summary_generator_run :: "pyrt \<Rightarrow> ustring \<Rightarrow> ctxt \<Rightarrow> error + ctxt" where
  "summary_generator_run rt now context =
     and_then (get_sentences context (ascii ''analyzed_sentences'')) (\<lambda>analyzed_sentences.
     and_then (get_themes context (ascii ''themes'')) (\<lambda>themes.
     and_then (get_str context (ascii ''language'') (ascii ''english'')) (\<lambda>language.
     and_then (get_str context (ascii ''query'') []) (\<lambda>query.
     and_then (select_summary_sentences rt analyzed_sentences themes) (\<lambda>selected_sentences.
       let summary_text = compose_summary selected_sentences language;
           formatted_summary = format_summary_for_language summary_text language
       in Inr (AList.update (ascii ''generation_timestamp'') (VStr now)
              (AList.update (ascii ''summary_sentences'') (VSentences selected_sentences)
              (AList.update (ascii ''generated_summary'') (VStr formatted_summary) context))))))))"

section \<open>CriticAgent\<close>

definition analyze_summary_quality :: "pyrt \<Rightarrow> ustring \<Rightarrow> ustring \<Rightarrow> (ustring \<times> nat) list \<Rightarrow> rat" where
  "analyze_summary_quality rt summary query themes =
     (if summary = [] then 0
      else
        let n = length summary;
            length_score = (if 100 \<le> n \<and> n \<le> 500 then 3 / 10 else if 50 < n then 15 / 100 else 0);
            query_words = remdups (py_split (lower rt query));
            summary_words = remdups (py_split (lower rt summary));
            relevance_score =
              (if query_words \<noteq> []
               then of_nat (overlap_count query_words summary_words) / of_nat (length query_words) * (4 / 10)
               else 0);
            theme_words = remdups (map fst themes);
            theme_score =
              (if themes \<noteq> []
               then of_nat (overlap_count theme_words summary_words) / of_nat (length theme_words) * (3 / 10)
               else 0)
        in min (length_score + relevance_score + theme_score) 1)"

definition generate_improvement_suggestions :: "pyrt \<Rightarrow> ustring \<Rightarrow> ustring \<Rightarrow> ustring \<Rightarrow> ustring list" where
  "generate_improvement_suggestions rt summary query language =
     (let length_suggestions =
            (if length summary < 50 then [ascii ''summary_too_short'']
             else if 600 < length summary then [ascii ''summary_too_long'']
             else []);
          query_words = remdups (py_split (lower rt query));
          summary_words = remdups (py_split (lower rt summary))
      in length_suggestions @
           (if query_words \<noteq> [] \<and> overlap_count query_words summary_words = 0
            then [ascii ''low_query_relevance''] else []))"

definition clarifications :: "(ustring \<times> ustring) list" where
  "clarifications =
    [(ascii ''hindi'', [32, 40, 2360, 2368, 2350, 2367, 2340, 32, 2332, 2366, 2344, 2325, 2366,
      2352, 2368, 32, 2325, 2375, 32, 2310, 2343, 2366, 2352, 32, 2346, 2352, 41]),
     (ascii ''telugu'', [32, 40, 3114, 3120, 3135, 3118, 3135, 3108, 32, 3128, 3118, 3134, 3098,
      3134, 3120, 3074, 32, 3078, 3111, 3134, 3120, 3074, 3095, 3134, 41]),
     (ascii ''marathi'', [32, 40, 2350, 2352, 2381, 2351, 2366, 2342, 2367, 2340, 32, 2350, 2366,
      2361, 2367, 2340, 2368, 2330, 2381, 2351, 2366, 32, 2310, 2343, 2366, 2352, 2366, 2357,
      2352, 41]),
     (ascii ''english'', ascii '' (based on limited information)'')]"

definition apply_improvements :: "ustring \<Rightarrow> ustring list \<Rightarrow> ustring \<Rightarrow> ustring" where
  "apply_improvements summary suggestions language =
     (if ascii ''summary_too_long'' \<in> set suggestions
      then (let sentences = split_at (\<lambda>c. c = 46) [] summary
            in if 3 < length sentences then join (ascii ''. '') (take 3 sentences) @ ascii ''.''
               else summary)
      else if ascii ''summary_too_short'' \<in> set suggestions
      then summary @ get_or_english clarifications language
      else summary)"

definition critic_run :: "pyrt \<Rightarrow> ustring \<Rightarrow> ctxt \<Rightarrow> error + ctxt" where
  "critic_run rt now context =
     and_then (get_str context (ascii ''generated_summary'') []) (\<lambda>summary.
     and_then (get_str context (ascii ''query'') []) (\<lambda>query.
     and_then (get_str context (ascii ''language'') (ascii ''english'')) (\<lambda>language.
     and_then (get_themes context (ascii ''themes'')) (\<lambda>themes.
       let quality_score = analyze_summary_quality rt summary query themes;
           suggestions = generate_improvement_suggestions rt summary query language;
           improved_summary = apply_improvements summary suggestions language
       in Inr (AList.update (ascii ''critique_timestamp'') (VStr now)
              (AList.update (ascii ''critic_suggestions'') (VStrs suggestions)
              (AList.update (ascii ''quality_score'') (VNum quality_score)
              (AList.update (ascii ''final_summary'') (VStr improved_summary) context))))))))"

section \<open>InsightExtractorAgent\<close>

definition themes_insight_formats :: "ustring \<Rightarrow> (ustring \<times> ustring) list" where
  "themes_insight_formats theme_text =
    [(ascii ''hindi'', [128269] @ ascii '' **'' @ [2350, 2369, 2326, 2381, 2351, 32, 2357, 2367,
      2359, 2351] @ ascii ''**: '' @ theme_text),
     (ascii ''telugu'', [128269] @ ascii '' **'' @ [3118, 3137, 3094, 3149, 3119, 32, 3125, 3135,
      3127, 3119, 3134, 3122, 3137] @ ascii ''**: '' @ theme_text),
     (ascii ''marathi'', [128269] @ ascii '' **'' @ [2350, 2369, 2326, 2381, 2351, 32, 2357,
      2367, 2359, 2351] @ ascii ''**: '' @ theme_text),
     (ascii ''english'', [128269] @ ascii '' **Key Topics**: '' @ theme_text)]"

definition source_insight_formats :: "nat \<Rightarrow> (ustring \<times> ustring) list" where
  "source_insight_formats count =
    [(ascii ''hindi'', [128202] @ ascii '' **'' @ [2360, 2381, 2352, 2379, 2340, 32, 2357, 2367,
      2357, 2367, 2343, 2340, 2366] @ ascii ''**: '' @ str_of_nat count @ [32, 2357, 2367, 2349,
      2367, 2344, 2381, 2344, 32, 2360, 2381, 2352, 2379, 2340, 2379, 2306, 32, 2360, 2375, 32,
      2332, 2366, 2344, 2325, 2366, 2352, 2368]),
     (ascii ''telugu'', [128202] @ ascii '' **'' @ [3118, 3138, 3122, 32, 3125, 3144, 3125, 3135,
      3111, 3149, 3119, 3074] @ ascii ''**: '' @ str_of_nat count @ [32, 3125, 3143, 3120, 3149,
      3125, 3143, 3120, 3137, 32, 3118, 3138, 3122, 3134, 3122, 32, 3112, 3137, 3074, 3105, 3135,
      32, 3128, 3118, 3134, 3098, 3134, 3120, 3074]),
     (ascii ''marathi'', [128202] @ ascii '' **'' @ [2360, 2381, 2352, 2379, 2340, 32, 2357,
      2367, 2357, 2367, 2343, 2340, 2366] @ ascii ''**: '' @ str_of_nat count @ [32, 2357, 2375,
      2327, 2357, 2375, 2327, 2355, 2381, 2351, 2366, 32, 2360, 2381, 2352, 2379, 2340, 2366,
      2306, 2325, 2337, 2370, 2344, 32, 2350, 2366, 2361, 2367, 2340, 2368]),
     (ascii ''english'', [128202] @ ascii '' **Source Diversity**: Information from ''
      @ str_of_nat count @ ascii '' different sources'')]"

definition entity_insight_formats :: "ustring \<Rightarrow> (ustring \<times> ustring) list" where
  "entity_insight_formats entity_text =
    [(ascii ''hindi'', [127991, 65039] @ ascii '' **'' @ [2350, 2369, 2326, 2381, 2351, 32, 2360,
      2306, 2360, 2381, 2341, 2366, 2319, 2306] @ ascii ''**: '' @ entity_text),
     (ascii ''telugu'', [127991, 65039] @ ascii '' **'' @ [3118, 3137, 3094, 3149, 3119, 32,
      3128, 3074, 3128, 3149, 3109, 3122, 3137] @ ascii ''**: '' @ entity_text),
     (ascii ''marathi'', [127991, 65039] @ ascii '' **'' @ [2350, 2369, 2326, 2381, 2351, 32,
      2360, 2306, 2360, 2381, 2341, 2366] @ ascii ''**: '' @ entity_text),
     (ascii ''english'', [127991, 65039] @ ascii '' **Key Entities**: '' @ entity_text)]"

definition format_themes_insight :: "ustring list \<Rightarrow> ustring \<Rightarrow> ustring" where
  "format_themes_insight themes language =
     get_or_english (themes_insight_formats (join (ascii '', '') themes)) language"

definition format_source_insight :: "nat \<Rightarrow> ustring \<Rightarrow> ustring" where
  "format_source_insight count language = get_or_english (source_insight_formats count) language"

definition format_entity_insight :: "ustring list \<Rightarrow> ustring \<Rightarrow> ustring" where
  "format_entity_insight entities language =
     get_or_english (entity_insight_formats (join (ascii '', '') entities)) language"

text \<open>\<^verbatim>\<open>set(sources)\<close> hashes every source, which raises for a list or a dictionary.\<close>

definition insight_extractor_run :: "ustring \<Rightarrow> ctxt \<Rightarrow> error + ctxt" where
  "insight_extractor_run now context =
     and_then (get_themes context (ascii ''themes'')) (\<lambda>themes.
     and_then (get_strs context (ascii ''entities'')) (\<lambda>entities.
     and_then (get_processed context (ascii ''processed_results'')) (\<lambda>processed_results.
     and_then (get_str context (ascii ''language'') (ascii ''english'')) (\<lambda>language.
       let theme_insights =
             (if themes \<noteq> [] then [format_themes_insight (take 5 (map fst themes)) language] else []);
           sources = map pr_source processed_results
       in if \<not> list_all hashable sources then Inl TypeError
          else
            let unique_sources = length (remdups sources);
                source_insights =
                  (if 1 < unique_sources then [format_source_insight unique_sources language] else []);
                entity_insights =
                  (if entities \<noteq> [] then [format_entity_insight (take 3 entities) language] else [])
            in Inr (AList.update (ascii ''insight_timestamp'') (VStr now)
                   (AList.update (ascii ''key_insights'')
                      (VStrs (theme_insights @ source_insights @ entity_insights)) context))))))"

section \<open>AgenticSummarizer\<close>

text \<open>
  The result dictionaries have fixed keys and are modelled as a record. \<open>clock p\<close> is the
  reading of \<^verbatim>\<open>datetime.now().isoformat()\<close> taken at the program point \<open>p\<close>.
\<close>

datatype program_point = AtStart | AtFetch | AtAnalysis | AtInsight | AtGeneration | AtCritique | AtResult

type_synonym clock = "program_point \<Rightarrow> ustring"

record execution_details =
  themes_found :: nat
  entities_found :: nat
  sentences_analyzed :: nat
  critic_suggestions :: "ustring list"
  workflow_stages :: "ustring list"

record summary_result =
  r_query :: ustring
  r_language :: ustring
  ai_summary :: ustring
  key_insights :: "ustring list"
  confidence_score :: rat
  source_count :: nat
  sources :: "pyval list"
  timestamp :: ustring
  summarization_method :: ustring
  r_execution_details :: "execution_details option"
  r_error :: "error option"

definition content_analyzer :: "pyrt \<Rightarrow> clock \<Rightarrow> agent" where
  "content_analyzer rt clock = Stage (ascii ''ContentAnalyzer'') (pure_stage (content_analyzer_run rt (clock AtAnalysis)))"

definition insight_extractor :: "clock \<Rightarrow> agent" where
  "insight_extractor clock = Stage (ascii ''InsightExtractor'') (pure_stage (insight_extractor_run (clock AtInsight)))"

definition data_fetcher :: "pyrt \<Rightarrow> clock \<Rightarrow> agent" where
  "data_fetcher rt clock = Stage (ascii ''DataFetcher'') (pure_stage (data_fetcher_run rt (clock AtFetch)))"

definition summary_generator :: "pyrt \<Rightarrow> clock \<Rightarrow> agent" where
  "summary_generator rt clock = Stage (ascii ''SummaryGenerator'') (pure_stage (summary_generator_run rt (clock AtGeneration)))"

definition critic :: "pyrt \<Rightarrow> clock \<Rightarrow> agent" where
  "critic rt clock = Stage (ascii ''Critic'') (pure_stage (critic_run rt (clock AtCritique)))"

definition analysis_pipeline :: "pyrt \<Rightarrow> clock \<Rightarrow> agent" where
  "analysis_pipeline rt clock =
     ParallelAgent (ascii ''AnalysisPhase'') [content_analyzer rt clock, insight_extractor clock]"

definition generation_pipeline :: "pyrt \<Rightarrow> clock \<Rightarrow> agent" where
  "generation_pipeline rt clock =
     SequentialAgent (ascii ''GenerationPhase'') [summary_generator rt clock, critic rt clock]"

definition main_workflow :: "pyrt \<Rightarrow> clock \<Rightarrow> agent" where
  "main_workflow rt clock =
     SequentialAgent (ascii ''MainWorkflow'')
       [data_fetcher rt clock, analysis_pipeline rt clock, generation_pipeline rt clock]"

definition compile_final_result :: "ustring \<Rightarrow> ctxt \<Rightarrow> error + summary_result" where
  "compile_final_result now context =
     and_then (get_dict context (ascii ''parallel_results'')) (\<lambda>parallel_results.
     and_then (get_dict parallel_results (ascii ''ContentAnalyzer'')) (\<lambda>content_analysis.
     and_then (get_dict parallel_results (ascii ''InsightExtractor'')) (\<lambda>insight_extraction.
     and_then (get_str context (ascii ''query'') []) (\<lambda>query.
     and_then (get_str context (ascii ''language'') (ascii ''english'')) (\<lambda>language.
     and_then (get_str context (ascii ''final_summary'') []) (\<lambda>final_summary.
     and_then (get_strs insight_extraction (ascii ''key_insights'')) (\<lambda>insights.
     and_then (get_num context (ascii ''quality_score'') 0) (\<lambda>quality_score.
     and_then (get_processed context (ascii ''processed_results'')) (\<lambda>processed_results.
     and_then (get_themes content_analysis (ascii ''themes'')) (\<lambda>themes.
     and_then (get_strs content_analysis (ascii ''entities'')) (\<lambda>entities.
     and_then (get_sentences content_analysis (ascii ''analyzed_sentences'')) (\<lambda>analyzed_sentences.
     and_then (get_strs context (ascii ''critic_suggestions'')) (\<lambda>suggestions.
       Inr \<lparr> r_query = query, r_language = language, ai_summary = final_summary,
             key_insights = insights, confidence_score = quality_score,
             source_count = length processed_results,
             sources = map pr_source (take 3 processed_results),
             timestamp = now,
             summarization_method = ascii ''multi_agent_agentic'',
             r_execution_details =
               Some \<lparr> themes_found = length themes, entities_found = length entities,
                      sentences_analyzed = length analyzed_sentences,
                      critic_suggestions = suggestions,
                      workflow_stages = [ascii ''fetch'', ascii ''analyze'', ascii ''generate'', ascii ''critique''] \<rparr>,
             r_error = None \<rparr>)))))))))))))"

definition error_messages :: "(ustring \<times> ustring) list" where
  "error_messages =
    [(ascii ''hindi'', [128221] @ ascii '' **AI '' @ [2360, 2366, 2352, 2366, 2306, 2358]
      @ ascii ''**: '' @ [2340, 2325, 2344, 2368, 2325, 2368, 32, 2360, 2350, 2360, 2381, 2351,
      2366, 32, 2325, 2375, 32, 2325, 2366, 2352, 2339, 32, 2360, 2366, 2352, 2366, 2306, 2358,
      32, 2344, 2361, 2368, 2306, 32, 2348, 2344, 2366, 32, 2360, 2325, 2366, 2404]),
     (ascii ''telugu'', [128221] @ ascii '' **AI '' @ [3128, 3134, 3120, 3134, 3074, 3126, 3074]
      @ ascii ''**: '' @ [3128, 3134, 3074, 3093, 3143, 3108, 3135, 3093, 32, 3128, 3118, 3128,
      3149, 3119, 32, 3093, 3134, 3120, 3107, 3074, 3095, 3134, 32, 3128, 3134, 3120, 3134, 3074,
      3126, 3074, 32, 3120, 3138, 3114, 3146, 3074, 3110, 3135, 3074, 3098, 3122, 3143, 3093,
      3114, 3147, 3119, 3134, 3074, 2404]),
     (ascii ''marathi'', [128221] @ ascii '' **AI '' @ [2360, 2366, 2352, 2366, 2306, 2358]
      @ ascii ''**: '' @ [2340, 2366, 2306, 2340, 2381, 2352, 2367, 2325, 32, 2360, 2350, 2360,
      2381, 2351, 2375, 2350, 2369, 2355, 2375, 32, 2360, 2366, 2352, 2366, 2306, 2358, 32, 2340,
      2351, 2366, 2352, 32, 2325, 2352, 2370, 32, 2358, 2325, 2354, 2379, 32, 2344, 2366, 2361,
      2368, 2404]),
     (ascii ''english'', [128221]
      @ ascii '' **AI Summary**: Unable to generate summary due to technical issues.'')]"

definition generate_error_result :: "ustring \<Rightarrow> ctxt \<Rightarrow> error \<Rightarrow> error + summary_result" where
  "generate_error_result now context e =
     and_then (get_str context (ascii ''language'') (ascii ''english'')) (\<lambda>language.
     and_then (get_str context (ascii ''query'') []) (\<lambda>query.
       Inr \<lparr> r_query = query, r_language = language,
             ai_summary = get_or_english error_messages language,
             key_insights = [], confidence_score = 0, source_count = 0, sources = [],
             timestamp = now, summarization_method = ascii ''error_fallback'',
             r_execution_details = None, r_error = Some e \<rparr>))"

text \<open>
  \<^verbatim>\<open>AgenticSummarizer.run_async\<close>: the body of the \<^verbatim>\<open>try\<close> runs the workflow and compiles
  the result; the handler builds the error result from the context the caller passed, and
  what the handler raises reaches the caller.
\<close>

definition try_body :: "pyrt \<Rightarrow> clock \<Rightarrow> ctxt \<Rightarrow> error + summary_result" where
  "try_body rt clock context =
     and_then (snd (run_async (main_workflow rt clock) empty_store context))
       (compile_final_result (clock AtResult))"

definition agentic_run_async :: "pyrt \<Rightarrow> clock \<Rightarrow> ctxt \<Rightarrow> error + summary_result" where
  "agentic_run_async rt clock context =
     (case try_body rt clock context of
        Inr final_result \<Rightarrow> Inr final_result
      | Inl e \<Rightarrow> generate_error_result (clock AtResult) context e)"

definition no_results_messages :: "(ustring \<times> ustring) list" where
  "no_results_messages =
    [(ascii ''hindi'', [128221] @ ascii '' **AI '' @ [2360, 2366, 2352, 2366, 2306, 2358]
      @ ascii ''**: '' @ [2311, 2360, 32, 2357, 2367, 2359, 2351, 32, 2346, 2352, 32, 2357, 2352,
      2381, 2340, 2350, 2366, 2344, 32, 2350, 2375, 2306, 32, 2332, 2366, 2344, 2325, 2366, 2352,
      2368, 32, 2313, 2346, 2354, 2348, 2381, 2343, 32, 2344, 2361, 2368, 2306, 32, 2361, 2376,
      2404]),
     (ascii ''telugu'', [128221] @ ascii '' **AI '' @ [3128, 3134, 3120, 3134, 3074, 3126, 3074]
      @ ascii ''**: '' @ [3080, 32, 3125, 3135, 3127, 3119, 3074, 3114, 3144, 32, 3114, 3149,
      3120, 3128, 3149, 3108, 3137, 3108, 3074, 32, 3128, 3118, 3134, 3098, 3134, 3120, 3074, 32,
      3077, 3074, 3110, 3137, 3116, 3134, 3103, 3137, 3122, 3147, 32, 3122, 3143, 3110, 3137,
      2404]),
     (ascii ''marathi'', [128221] @ ascii '' **AI '' @ [2360, 2366, 2352, 2366, 2306, 2358]
      @ ascii ''**: '' @ [2351, 2366, 32, 2357, 2367, 2359, 2351, 2366, 2357, 2352, 32, 2360,
      2343, 2381, 2351, 2366, 32, 2350, 2366, 2361, 2367, 2340, 2368, 32, 2313, 2346, 2354, 2348,
      2381, 2343, 32, 2344, 2366, 2361, 2368, 2404]),
     (ascii ''english'', [128221]
      @ ascii '' **AI Summary**: Information on this topic is currently not available.'')]"

definition generate_no_results_summary :: "ustring \<Rightarrow> ustring \<Rightarrow> ustring \<Rightarrow> summary_result" where
  "generate_no_results_summary now query language =
     \<lparr> r_query = query, r_language = language,
       ai_summary = get_or_english no_results_messages language,
       key_insights = [], confidence_score = 0, source_count = 0, sources = [],
       timestamp = now, summarization_method = ascii ''no_results_fallback'',
       r_execution_details = None, r_error = None \<rparr>"

definition initial_context :: "clock \<Rightarrow> pyval list \<Rightarrow> ustring \<Rightarrow> ustring \<Rightarrow> int \<Rightarrow> ctxt" where
  "initial_context clock search_results query language max_results =
     [(ascii ''search_results'', VRaw (slice_to search_results max_results)),
      (ascii ''query'', VStr query),
      (ascii ''language'', VStr language),
      (ascii ''max_results'', VInt max_results),
      (ascii ''start_timestamp'', VStr (clock AtStart))]"

text \<open>
  \<^verbatim>\<open>AgenticSummarizer.summarize_search_results\<close>, the public interface of the pipeline.
  \<open>Inl e\<close> is an exception that reaches the caller.
\<close>

definition summarize_search_results ::
    "pyrt \<Rightarrow> clock \<Rightarrow> pyval list \<Rightarrow> ustring \<Rightarrow> ustring \<Rightarrow> int \<Rightarrow> error + summary_result" where
  "summarize_search_results rt clock search_results query language max_results =
     (if search_results = [] then Inr (generate_no_results_summary (clock AtStart) query language)
      else agentic_run_async rt clock (initial_context clock search_results query language max_results))"

section \<open>The lightweight summarizer (ai\_summarizer.py)\<close>

definition ai_stop_words :: "(ustring \<times> ustring list) list" where
  "ai_stop_words =
    [(ascii ''english'', [ascii ''the'', ascii ''a'', ascii ''an'', ascii ''and'', ascii ''or'',
      ascii ''but'', ascii ''in'', ascii ''on'', ascii ''at'', ascii ''to'', ascii ''for'',
      ascii ''of'', ascii ''with'', ascii ''by'']),
     (ascii ''hindi'', [[2325, 2366], [2325, 2375], [2325, 2379], [2350, 2375, 2306], [2324,
      2352], [2351, 2366], [2360, 2375], [2346, 2352], [2361, 2376], [2361, 2376, 2306], [2341,
      2366], [2341, 2375], [2351, 2361], [2357, 2361]]),
     (ascii ''telugu'', [[3118, 3120, 3135, 3119, 3137], [3122, 3143, 3110, 3134], [3122, 3147],
      [3114, 3144], [3093, 3147, 3128, 3074], [3108, 3147], [3079, 3110, 3135], [3077, 3110,
      3135], [3081, 3074, 3110, 3135], [3081, 3112, 3149, 3112, 3134, 3120, 3137]]),
     (ascii ''marathi'', [[2310, 2339, 2367], [2325, 2367, 2306, 2357, 2366], [2350, 2343, 2381,
      2351, 2375], [2357, 2352], [2360, 2366, 2336, 2368], [2360, 2379, 2348, 2340], [2361, 2375],
      [2340, 2375], [2310, 2361, 2375], [2310, 2361, 2375, 2340]])]"

definition position_weight :: rat where
  "position_weight = 4 / 10"

definition length_weight :: rat where
  "length_weight = 3 / 10"

definition keyword_weight :: rat where
  "keyword_weight = 3 / 10"

definition ai_score_sentence :: "pyrt \<Rightarrow> ustring \<Rightarrow> ustring \<Rightarrow> nat \<Rightarrow> ustring \<Rightarrow> rat" where
  "ai_score_sentence rt sentence query position language =
     (let position_score = (3 - of_nat position) / 3 * position_weight;
          words = py_split sentence;
          length_score = min (of_nat (length words) / 20) 1 * length_weight;
          stop = dict_get ai_stop_words language [];
          query_words = filter (\<lambda>w. w \<notin> set stop) (remdups (py_split (lower rt query)));
          sentence_words = filter (\<lambda>w. w \<notin> set stop) (remdups (py_split (lower rt sentence)));
          keyword_score =
            (if query_words \<noteq> []
             then of_nat (overlap_count query_words sentence_words) / of_nat (length query_words) * keyword_weight
             else 0)
      in min (position_score + length_score + keyword_score) 1)"

definition ai_intros :: "(ustring \<times> ustring) list" where
  "ai_intros =
    [(ascii ''hindi'', [128221] @ ascii '' **AI '' @ [2360, 2366, 2352, 2366, 2306, 2358]
      @ ascii ''**: ''),
     (ascii ''telugu'', [128221] @ ascii '' **AI '' @ [3128, 3134, 3120, 3134, 3074, 3126, 3074]
      @ ascii ''**: ''),
     (ascii ''marathi'', [128221] @ ascii '' **AI '' @ [2360, 2366, 2352, 2366, 2306, 2358]
      @ ascii ''**: ''),
     (ascii ''english'', [128221] @ ascii '' **AI Summary**: '')]"

definition ai_format_summary_for_language :: "ustring \<Rightarrow> ustring \<Rightarrow> ustring" where
  "ai_format_summary_for_language summary language =
     dict_get ai_intros language ([128221] @ ascii '' **AI Summary**: '') @ summary"

definition ai_messages :: "(ustring \<times> (ustring \<times> ustring) list) list" where
  "ai_messages =
    [(ascii ''hindi'', [(ascii ''no_results'', [128221] @ ascii '' **AI '' @ [2360, 2366, 2352,
      2366, 2306, 2358] @ ascii ''**: '' @ [2311, 2360, 32, 2357, 2367, 2359, 2351, 32, 2346,
      2352, 32, 2357, 2352, 2381, 2340, 2350, 2366, 2344, 32, 2350, 2375, 2306, 32, 2332, 2366,
      2344, 2325, 2366, 2352, 2368, 32, 2313, 2346, 2354, 2348, 2381, 2343, 32, 2344, 2361, 2368,
      2306, 32, 2361, 2376, 2404]),
        (ascii ''no_content'', [128221] @ ascii '' **AI ''
      @ [2360, 2366, 2352, 2366, 2306, 2358] @ ascii ''**: '' @ [2346, 2352, 2381, 2351, 2366,
      2346, 2381, 2340, 32, 2360, 2366, 2350, 2327, 2381, 2352, 2368, 32, 2313, 2346, 2354, 2348,
      2381, 2343, 32, 2344, 2361, 2368, 2306, 32, 2361, 2376,
      2404]),
        (ascii ''processing_error'', [128221] @ ascii '' **AI '' @ [2360, 2366,
      2352, 2366, 2306, 2358] @ ascii ''**: '' @ [2332, 2366, 2344, 2325, 2366, 2352, 2368, 32,
      2346, 2381, 2352, 2360, 2306, 2360, 2381, 2325, 2352, 2339, 32, 2350, 2375, 2306, 32, 2360,
      2350, 2360, 2381, 2351, 2366, 32, 2361, 2369, 2312, 2404])]),
     (ascii ''telugu'', [(ascii ''no_results'', [128221] @ ascii '' **AI '' @ [3128, 3134, 3120,
      3134, 3074, 3126, 3074] @ ascii ''**: '' @ [3080, 32, 3125, 3135, 3127, 3119, 3074, 3114,
      3144, 32, 3114, 3149, 3120, 3128, 3149, 3108, 3137, 3108, 3074, 32, 3128, 3118, 3134, 3098,
      3134, 3120, 3074, 32, 3077, 3074, 3110, 3137, 3116, 3134, 3103, 3137, 3122, 3147, 32, 3122,
      3143, 3110, 3137, 2404]),
        (ascii ''no_content'', [128221] @ ascii '' **AI ''
      @ [3128, 3134, 3120, 3134, 3074, 3126, 3074] @ ascii ''**: '' @ [3108, 3095, 3135, 3112, 32,
      3093, 3074, 3103, 3142, 3074, 3103, 3149, 32, 3077, 3074, 3110, 3137, 3116, 3134, 3103,
      3137, 3122, 3147, 32, 3122, 3143, 3110, 3137, 2404]),
        (ascii ''processing_error'',
      [128221] @ ascii '' **AI '' @ [3128, 3134, 3120, 3134, 3074, 3126, 3074] @ ascii ''**: ''
      @ [3128, 3118, 3134, 3098, 3134, 3120, 32, 3114, 3149, 3120, 3134, 3128, 3142, 3128, 3135,
      3074, 3095, 3149, 8204, 3122, 3147, 32, 3128, 3118, 3128, 3149, 3119, 46])]),
     (ascii ''marathi'', [(ascii ''no_results'', [128221] @ ascii '' **AI '' @ [2360, 2366, 2352,
      2366, 2306, 2358] @ ascii ''**: '' @ [2351, 2366, 32, 2357, 2367, 2359, 2351, 2366, 2357,
      2352, 32, 2360, 2343, 2381, 2351, 2366, 32, 2350, 2366, 2361, 2367, 2340, 2368, 32, 2313,
      2346, 2354, 2348, 2381, 2343, 32, 2344, 2366, 2361, 2368,
      2404]),
        (ascii ''no_content'', [128221] @ ascii '' **AI '' @ [2360, 2366, 2352,
      2366, 2306, 2358] @ ascii ''**: '' @ [2346, 2369, 2352, 2375, 2358, 2368, 32, 2360, 2366,
      2350, 2327, 2381, 2352, 2368, 32, 2313, 2346, 2354, 2348, 2381, 2343, 32, 2344, 2366, 2361,
      2368, 2404]),
        (ascii ''processing_error'', [128221] @ ascii '' **AI '' @ [2360,
      2366, 2352, 2366, 2306, 2358] @ ascii ''**: '' @ [2350, 2366, 2361, 2367, 2340, 2368, 32,
      2346, 2381, 2352, 2325, 2381, 2352, 2367, 2351, 2375, 2340, 32, 2360, 2350, 2360, 2381,
      2351, 2366, 46])]),
     (ascii ''english'', [(ascii ''no_results'', [128221]
      @ ascii '' **AI Summary**: Information on this topic is currently not available.''),
        (ascii ''no_content'',
      [128221]
      @ ascii '' **AI Summary**: Insufficient content available.''),
        (ascii ''processing_error'',
      [128221] @ ascii '' **AI Summary**: Error in information processing.'')])]"

definition ai_get_default_message :: "ustring \<Rightarrow> ustring \<Rightarrow> ustring" where
  "ai_get_default_message language message_type =
     dict_get (get_or_english ai_messages language) message_type (ascii ''No information available.'')"

definition ai_generate_no_results_summary :: "ustring \<Rightarrow> ustring \<Rightarrow> ustring \<Rightarrow> summary_result" where
  "ai_generate_no_results_summary now query language =
     \<lparr> r_query = query, r_language = language,
       ai_summary = ai_get_default_message language (ascii ''no_results''),
       key_insights = [], confidence_score = 0, source_count = 0, sources = [],
       timestamp = now, summarization_method = ascii ''fallback'',
       r_execution_details = None, r_error = None \<rparr>"

section \<open>The hybrid orchestrator\<close>

text \<open>
  Modelled from the spec: \<^verbatim>\<open>backend/core/hybrid_summarizer.py\<close>, which defines the hybrid
  orchestrator and the \<^verbatim>\<open>approach_used\<close> field, is not among the sources (only its callers
  in \<^verbatim>\<open>api/main.py\<close> and \<^verbatim>\<open>test_agentic_summarizer.py\<close> are). The definitions of this
  section follow sections 3 and 4.7 of the specification. The two paths are parameters; a
  path returns a result or raises. The second component of the orchestrator's result lists
  the paths it invoked, in order. The specification does not say how the combined content
  length is measured, so the measure is a parameter too; where both force flags are set
  the model lets the lightweight one win.
\<close>

datatype approach = Heuristic | Pipeline | NoResults | ErrorApproach

record hybrid_config =
  use_agentic_by_default :: bool
  min_results :: nat
  min_content_length :: nat

record normalized_result =
  n_query :: ustring
  n_language :: ustring
  summary_text :: ustring
  n_key_insights :: "ustring list"
  confidence :: rat
  n_source_count :: nat
  n_sources :: "pyval list"
  approach_used :: approach

type_synonym path = "pyval list \<Rightarrow> ustring \<Rightarrow> ustring \<Rightarrow> int \<Rightarrow> error + summary_result"

definition normalize :: "approach \<Rightarrow> summary_result \<Rightarrow> normalized_result" where
  "normalize a r =
     \<lparr> n_query = r_query r, n_language = r_language r, summary_text = ai_summary r,
       n_key_insights = key_insights r, confidence = confidence_score r,
       n_source_count = source_count r, n_sources = sources r, approach_used = a \<rparr>"

text \<open>
  Modelled from the spec: the no-results and error records of the absent orchestrator, with
  the messages of the pipeline's own tables.
\<close>

definition no_results_result :: "ustring \<Rightarrow> ustring \<Rightarrow> normalized_result" where
  "no_results_result query language =
     \<lparr> n_query = query, n_language = language,
       summary_text = get_or_english no_results_messages language,
       n_key_insights = [], confidence = 0, n_source_count = 0, n_sources = [],
       approach_used = NoResults \<rparr>"

definition error_result :: "ustring \<Rightarrow> ustring \<Rightarrow> normalized_result" where
  "error_result query language =
     \<lparr> n_query = query, n_language = language,
       summary_text = get_or_english error_messages language,
       n_key_insights = [], confidence = 0, n_source_count = 0, n_sources = [],
       approach_used = ErrorApproach \<rparr>"

text \<open>Modelled from the spec: the selection rule of the absent orchestrator.\<close>

definition select_path :: "hybrid_config \<Rightarrow> nat \<Rightarrow> nat \<Rightarrow> bool \<Rightarrow> bool \<Rightarrow> approach" where
  "select_path config n_results content_length force_lightweight force_agentic =
     (if force_lightweight then Heuristic
      else if force_agentic then Pipeline
      else if use_agentic_by_default config then Pipeline
      else if n_results < min_results config \<and> content_length < min_content_length config then Heuristic
      else Pipeline)"

text \<open>
  Modelled from the spec: the entry point \<^verbatim>\<open>summarize\<close> of the absent orchestrator. An
  empty result list short-circuits to the no-results record; otherwise the selected path
  runs, and a failing pipeline degrades to the heuristic path, then to the error record.
\<close>

definition hybrid_summarize ::
    "hybrid_config \<Rightarrow> (pyval list \<Rightarrow> nat) \<Rightarrow> path \<Rightarrow> path \<Rightarrow>
     pyval list \<Rightarrow> ustring \<Rightarrow> ustring \<Rightarrow> int \<Rightarrow> bool \<Rightarrow> bool \<Rightarrow> normalized_result \<times> approach list" where
  "hybrid_summarize config content_length heuristic_path pipeline_path
       results query language max_results force_lightweight force_agentic =
     (if results = [] then (no_results_result query language, [])
      else
        (case select_path config (length results) (content_length results) force_lightweight force_agentic of
           Heuristic \<Rightarrow>
             (case heuristic_path results query language max_results of
                Inr r \<Rightarrow> (normalize Heuristic r, [Heuristic])
              | Inl e \<Rightarrow> (error_result query language, [Heuristic]))
         | _ \<Rightarrow>
             (case pipeline_path results query language max_results of
                Inr r \<Rightarrow> (normalize Pipeline r, [Pipeline])
              | Inl e \<Rightarrow>
                  (case heuristic_path results query language max_results of
                     Inr r \<Rightarrow> (normalize Heuristic r, [Pipeline, Heuristic])
                   | Inl e' \<Rightarrow> (error_result query language, [Pipeline, Heuristic])))))"

section \<open>The diversity policy in the words of the specification\<close>

text \<open>
  A second definition of the sentence selection, following the specification (section 4.5)
  and not the code: a candidate is judged against the sentences accepted so far, without
  the loop's \<^verbatim>\<open>used_sources\<close> and \<^verbatim>\<open>theme_coverage\<close> variables. The theme set of a
  sentence is the one \<^verbatim>\<open>_extract_themes_from_text\<close> computes.
\<close>

definition theme_set :: "pyrt \<Rightarrow> sentence \<Rightarrow> ustring set" where
  "theme_set rt s = set (extract_themes_from_text rt (s_text s))"

definition accepts_spec :: "pyrt \<Rightarrow> sentence list \<Rightarrow> sentence \<Rightarrow> bool" where
  "accepts_spec rt accepted cand =
     ((s_source cand \<notin> s_source ` set accepted \<or> length accepted < 2)
      \<and> (theme_set rt cand \<inter> \<Union> (theme_set rt ` set accepted) = {}
          \<or> length accepted < 2
          \<or> 7 / 10 < s_score cand))"

fun scan_spec :: "pyrt \<Rightarrow> sentence list \<Rightarrow> sentence list \<Rightarrow> sentence list" where
  "scan_spec rt accepted [] = accepted"
| "scan_spec rt accepted (cand # rest) =
     (if 3 \<le> length accepted then accepted
      else if accepts_spec rt accepted cand then scan_spec rt (accepted @ [cand]) rest
      else scan_spec rt accepted rest)"

definition select_spec :: "pyrt \<Rightarrow> sentence list \<Rightarrow> sentence list" where
  "select_spec rt sentences = scan_spec rt [] (take 10 sentences)"

section \<open>The sentence score in the words of the specification\<close>

text \<open>
  A second definition of the composite score, following the specification (section 4.3)
  and not the code: the keyword overlap is the fraction of the query terms left after
  removing the stop words of the request language that are present in the sentence.
\<close>

definition score_sentence_spec :: "pyrt \<Rightarrow> ustring \<Rightarrow> ustring \<Rightarrow> nat \<Rightarrow> ustring \<Rightarrow> rat" where
  "score_sentence_spec rt sentence query rank language =
     (let position_weight = max 0 ((5 - of_nat rank) / 5);
          length_weight = min (of_nat (length (py_split sentence)) / 15) 1;
          query_terms = filter (\<lambda>w. w \<notin> set (dict_get stop_words language []))
                          (remdups (py_split (lower rt query)));
          sentence_words = remdups (py_split (lower rt sentence));
          keyword_overlap =
            (if query_terms = [] then 0
             else of_nat (overlap_count query_terms sentence_words) / of_nat (length query_terms))
      in max 0 (min (3 / 10 * position_weight + 2 / 10 * length_weight + 5 / 10 * keyword_overlap) 1))"

section \<open>Example inputs\<close>



definition candidate :: "string \<Rightarrow> rat \<Rightarrow> string \<Rightarrow> sentence" where
  "candidate t sc src = \<lparr> s_text = ascii t, s_score = sc, s_source = PStr (ascii src), s_position = 0 \<rparr>"

definition example_candidates :: "sentence list" where
  "example_candidates =
     [candidate ''alpha bravo'' (9 / 10) ''a.org'',
      candidate ''alpha delta'' (6 / 10) ''a.org'',
      candidate ''gamma kappa'' (5 / 10) ''a.org'',
      candidate ''alpha sigma'' (4 / 10) ''b.org'',
      candidate ''omega theta'' (3 / 10) ''c.org'',
      candidate ''lambda'' (2 / 10) ''d.org'']"

definition supported_languages :: "ustring set" where
  "supported_languages = {ascii ''hindi'', ascii ''telugu'', ascii ''marathi'', ascii ''english''}"

text \<open>
  The context after data preparation: what \<^verbatim>\<open>summarize_search_results\<close> builds, with the
  two keys \<^verbatim>\<open>DataFetcherAgent\<close> writes.
\<close>

definition fetched_context ::
    "clock \<Rightarrow> pyval list \<Rightarrow> ustring \<Rightarrow> ustring \<Rightarrow> int \<Rightarrow> processed_result list \<Rightarrow> ctxt" where
  "fetched_context clock search_results query language max_results processed_results =
     initial_context clock search_results query language max_results @
       [(ascii ''processed_results'', VProcessed processed_results),
        (ascii ''fetch_timestamp'', VStr (clock AtFetch))]"

text \<open>The insights \<^verbatim>\<open>InsightExtractorAgent\<close> derives from the sources alone.\<close>

definition source_insights :: "processed_result list \<Rightarrow> ustring \<Rightarrow> ustring list" where
  "source_insights processed_results language =
     (if 1 < length (remdups (map pr_source processed_results))
      then [format_source_insight (length (remdups (map pr_source processed_results))) language]
      else [])"


definition example_clock :: clock where
  "example_clock = (\<lambda>p. ascii ''2025-01-01T00:00:00'')"

text \<open>Two well-formed records from different sources, and a record that is not a dictionary.\<close>

definition example_results :: "pyval list" where
  "example_results =
     [PDict [(ascii ''title'', PStr (ascii ''Arctic ice'')),
             (ascii ''snippet'', PStr (ascii ''Ice sheets are melting'')),
             (ascii ''source'', PStr (ascii ''a.org''))],
      PDict [(ascii ''title'', PStr (ascii ''Sea levels'')),
             (ascii ''snippet'', PStr (ascii ''Seas are rising'')),
             (ascii ''source'', PStr (ascii ''b.org''))]]"

definition malformed_results :: "pyval list" where
  "malformed_results = [PNone]"


text \<open>
  A record whose source is a list: data preparation accepts it, and the insight stage
  raises when it builds the set of sources. \<open>list_source_processed\<close> is what data
  preparation makes of it for the query \<^verbatim>\<open>content\<close>.
\<close>

definition list_source_results :: "pyval list" where
  "list_source_results = [PDict [(ascii ''source'', PList [])]]"

definition list_source_processed :: "processed_result list" where
  "list_source_processed =
     [\<lparr> pr_title = [], pr_snippet = [], pr_source = PList [], pr_position = 0, pr_relevance_score = 0 \<rparr>]"




section \<open>Basic facts\<close>

lemma ascii_eq: "ascii s = ascii t \<longleftrightarrow> s = t"
  by (simp add: ascii_def inj_map_eq_map inj_on_def)

lemma length_ascii: "length (ascii s) = length s"
  by (simp add: ascii_def)


section \<open>Properties of the composition primitives\<close>

lemma fst_run_tasks_Cons:
  "fst (run_tasks (a # as) h c) = fst (run_tasks as (fst (run_async a h c)) c)"
  by (simp split: prod.splits)

lemma snd_run_tasks_Cons:
  "snd (run_tasks (a # as) h c) =
     (agent_name a, snd (run_async a h c)) # snd (run_tasks as (fst (run_async a h c)) c)"
  by (simp split: prod.splits)

lemma run_tasks_names: "map fst (snd (run_tasks subs h c)) = map agent_name subs"
  by (induction subs arbitrary: h) (simp_all only: snd_run_tasks_Cons run_tasks.simps(1) snd_conv list.map fst_conv)

lemma run_tasks_length: "length (snd (run_tasks subs h c)) = length subs"
  by (induction subs arbitrary: h) (simp_all only: snd_run_tasks_Cons run_tasks.simps(1) snd_conv list.size length_Cons)

lemma run_tasks_nth:
  "i < length subs \<Longrightarrow>
   snd (run_tasks subs h c) ! i =
     (agent_name (subs ! i), snd (run_async (subs ! i) (fst (run_tasks (take i subs) h c)) c))"
proof (induction subs arbitrary: h i)
  case Nil
  then show ?case by simp
next
  case (Cons a as)
  show ?case
  proof (cases i)
    case 0
    then show ?thesis by (simp only: snd_run_tasks_Cons nth_Cons_0 take_0 run_tasks.simps(1) fst_conv)
  next
    case (Suc j)
    with Cons.prems have j: "j < length as" by simp
    let ?h = "fst (run_async a h c)"
    have "snd (run_tasks (a # as) h c) ! Suc j = snd (run_tasks as ?h c) ! j"
      by (simp only: snd_run_tasks_Cons nth_Cons_Suc)
    also have "\<dots> = (agent_name (as ! j), snd (run_async (as ! j) (fst (run_tasks (take j as) ?h c)) c))"
      by (rule Cons.IH [OF j])
    also have "\<dots> = (agent_name ((a # as) ! Suc j),
        snd (run_async ((a # as) ! Suc j) (fst (run_tasks (take (Suc j) (a # as)) h c)) c))"
      by (simp only: fst_run_tasks_Cons nth_Cons_Suc take_Suc_Cons)
    finally show ?thesis unfolding Suc .
  qed
qed

lemma update_keys_image:
  "fst ` set (AList.update n v res) = insert n (fst ` set res)"
  by (induction res) auto

lemma collect_results_keys:
  "fst ` set (collect_results ts res) = fst ` set res \<union> fst ` set ts"
proof (induction ts arbitrary: res)
  case Nil
  then show ?case by simp
next
  case (Cons t ts)
  obtain n r where t: "t = (n, r)" by (cases t)
  have "fst ` set (collect_results (t # ts) res) =
        fst ` set (AList.update n (result_value r) res) \<union> fst ` set ts"
    unfolding t collect_results.simps by (rule Cons.IH)
  also have "\<dots> = insert n (fst ` set res) \<union> fst ` set ts"
    by (simp only: update_keys_image)
  also have "\<dots> = fst ` set res \<union> fst ` set (t # ts)"
    unfolding t by simp
  finally show ?case .
qed

lemma update_other: "k \<noteq> k' \<Longrightarrow> map_of (AList.update k' v c) k = map_of c k"
  by (simp add: update_conv')

lemma update_same: "map_of (AList.update k v c) k = Some v"
  by (simp add: update_conv')

lemma collect_results_map_of:
  "distinct (map fst ts) \<Longrightarrow>
   map_of (collect_results ts res) k =
     (case map_of ts k of Some r \<Rightarrow> Some (result_value r) | None \<Rightarrow> map_of res k)"
proof (induction ts arbitrary: res)
  case Nil
  then show ?case by simp
next
  case (Cons t ts)
  obtain n r where t: "t = (n, r)" by (cases t)
  from Cons.prems t have d: "distinct (map fst ts)" and nin: "n \<notin> fst ` set ts" by simp_all
  from nin have none: "map_of ts n = None" by (simp add: map_of_eq_None_iff)
  have ih: "map_of (collect_results (t # ts) res) k =
     (case map_of ts k of Some r' \<Rightarrow> Some (result_value r')
      | None \<Rightarrow> map_of (AList.update n (result_value r) res) k)"
    unfolding t collect_results.simps by (rule Cons.IH [OF d])
  show ?case
  proof (cases "k = n")
    case True
    from ih none True have "map_of (collect_results (t # ts) res) k = Some (result_value r)"
      by (simp add: update_same)
    with True show ?thesis unfolding t by simp
  next
    case False
    have "map_of (collect_results (t # ts) res) k =
       (case map_of ts k of Some r' \<Rightarrow> Some (result_value r') | None \<Rightarrow> map_of res k)"
      unfolding ih by (simp only: update_other [OF False])
    then show ?thesis unfolding t using False by simp
  qed
qed

lemma run_sequential_append:
  "run_sequential (xs @ ys) h c =
     (case run_sequential xs h c of
        (h1, Inl e) \<Rightarrow> (h1, Inl e)
      | (h1, Inr c1) \<Rightarrow> run_sequential ys h1 c1)"
proof (induction xs arbitrary: h c)
  case Nil
  then show ?case by simp
next
  case (Cons a xs)
  obtain h1 r where ra: "run_async a h c = (h1, r)" by (cases "run_async a h c")
  show ?case
  proof (cases r)
    case (Inl e)
    with ra show ?thesis by simp
  next
    case (Inr c1)
    with ra Cons.IH [of h1 c1] show ?thesis by simp
  qed
qed

lemma run_parallel_nonempty:
  "subs \<noteq> [] \<Longrightarrow>
   run_async (ParallelAgent n subs) h c =
     (fst (run_tasks subs h c),
      Inr (AList.update (ascii ''parallel_results'') (VDict (collect_results (snd (run_tasks subs h c)) [])) c))"
  by (simp split: prod.splits)

lemma run_tasks_distinct:
  "distinct (map agent_name subs) \<Longrightarrow> distinct (map fst (snd (run_tasks subs h c)))"
  by (simp only: run_tasks_names)

lemma map_of_run_tasks:
  assumes "i < length subs" and "distinct (map agent_name subs)"
  shows "map_of (snd (run_tasks subs h c)) (agent_name (subs ! i)) = Some (branch_outcome subs h c i)"
proof -
  let ?ts = "snd (run_tasks subs h c)"
  have d: "distinct (map fst ?ts)" using assms(2) by (rule run_tasks_distinct)
  have len: "i < length ?ts" using assms(1) by (simp only: run_tasks_length)
  have "?ts ! i = (agent_name (subs ! i), branch_outcome subs h c i)"
    unfolding branch_outcome_def using assms(1) by (rule run_tasks_nth)
  with len have "(agent_name (subs ! i), branch_outcome subs h c i) \<in> set ?ts"
    by (metis nth_mem)
  with d show ?thesis by (rule map_of_is_SomeI)
qed

lemma parallel_results_entry:
  assumes "i < length subs" and "distinct (map agent_name subs)"
  shows "map_of (collect_results (snd (run_tasks subs h c)) []) (agent_name (subs ! i)) =
           Some (result_value (branch_outcome subs h c i))"
proof -
  have d: "distinct (map fst (snd (run_tasks subs h c)))" using assms(2) by (rule run_tasks_distinct)
  show ?thesis
    by (simp only: collect_results_map_of [OF d] map_of_run_tasks [OF assms] option.case)
qed

lemma parallel_results_keys:
  "fst ` set (collect_results (snd (run_tasks subs h c)) []) = agent_name ` set subs"
proof -
  have "fst ` set (snd (run_tasks subs h c)) = set (map fst (snd (run_tasks subs h c)))" by simp
  also have "\<dots> = agent_name ` set subs" by (simp only: run_tasks_names set_map)
  finally show ?thesis by (simp add: collect_results_keys)
qed

lemma fst_run_tasks_transparent:
  "(\<And>a h c. a \<in> set subs \<Longrightarrow> fst (run_async a h c) = h) \<Longrightarrow> fst (run_tasks subs h c) = h"
proof (induction subs arbitrary: h)
  case Nil
  then show ?case by simp
next
  case (Cons a as)
  have "fst (run_async a h c) = h" by (rule Cons.prems) simp
  moreover have "fst (run_tasks as h c) = h" by (rule Cons.IH) (simp add: Cons.prems)
  ultimately show ?case by (simp only: fst_run_tasks_Cons)
qed

lemma fst_run_tasks_same_effect:
  "length xs = length ys \<Longrightarrow>
   (\<And>k h c. k < length xs \<Longrightarrow> fst (run_async (xs ! k) h c) = fst (run_async (ys ! k) h c)) \<Longrightarrow>
   fst (run_tasks xs h c) = fst (run_tasks ys h c)"
proof (induction xs ys arbitrary: h rule: list_induct2)
  case Nil
  then show ?case by simp
next
  case (Cons x xs y ys)
  have hd: "fst (run_async x h c) = fst (run_async y h c)"
    using Cons.prems [of 0 h c] by simp
  have tl: "\<And>k h c. k < length xs \<Longrightarrow> fst (run_async (xs ! k) h c) = fst (run_async (ys ! k) h c)"
    using Cons.prems [of "Suc k" for k] by simp
  show ?case
    by (simp only: fst_run_tasks_Cons hd Cons.IH [OF tl])
qed

text \<open>
  C4, as stated, fails: \<^verbatim>\<open>SequentialAgent.run_async\<close> has no handler. With a first child
  that raises and a second that marks the context, the composer itself ends with the
  child's exception; it returns no context, with or without an \<^verbatim>\<open>errors\<close> list, and
  the second child does not run.
\<close>

theorem sequential_error_not_attached_counterexample:
  "snd (run_async (SequentialAgent (ascii ''Seq'') [failing_stage, marker_stage]) empty_store []) =
      Inl (Raised (ascii ''boom''))
   \<and> \<not> (\<exists>c'. snd (run_async (SequentialAgent (ascii ''Seq'') [failing_stage, marker_stage]) empty_store []) = Inr c')"
  by (simp add: failing_stage_def marker_stage_def)

text \<open>
  C4, amended: when the children before \<open>a\<close> have run and \<open>a\<close> raises \<open>e\<close>, the
  sequential composer raises \<open>e\<close> itself, with the store as \<open>a\<close> left it, whatever
  children follow: they are not run and nothing is attached to the context.
\<close>

theorem sequential_child_error_propagates:
  assumes "run_sequential pre h c = (h1, Inr c1)"
    and "run_async a h1 c1 = (h2, Inl e)"
  shows "run_async (SequentialAgent n (pre @ a # post)) h c = (h2, Inl e)"
  using assms by (simp add: run_sequential_append)

text \<open>C4, witness: a marker stage, the failing stage, and a marker stage that never runs.\<close>

theorem sequential_child_error_propagates_witness:
  "run_sequential [marker_stage] empty_store [] = (empty_store, Inr [(ascii ''done'', VInt 1)])
   \<and> run_async failing_stage empty_store [(ascii ''done'', VInt 1)] = (empty_store, Inl (Raised (ascii ''boom'')))
   \<and> run_async (SequentialAgent (ascii ''Seq'') ([marker_stage] @ failing_stage # [marker_stage])) empty_store []
        = (empty_store, Inl (Raised (ascii ''boom'')))"
proof -
  have a: "run_sequential [marker_stage] empty_store [] = (empty_store, Inr [(ascii ''done'', VInt 1)])"
    by (simp add: marker_stage_def)
  have b: "run_async failing_stage empty_store [(ascii ''done'', VInt 1)] = (empty_store, Inl (Raised (ascii ''boom'')))"
    by (simp add: failing_stage_def)
  from a b sequential_child_error_propagates [OF a b, of "ascii ''Seq''" "[marker_stage]"]
  show ?thesis by simp
qed

text \<open>
  C5, as stated, fails: \<^verbatim>\<open>context.copy()\<close> is a shallow copy. The second child reads the
  list that the first child appended to: its result holds \<^verbatim>\<open>['x']\<close> under
  \<^verbatim>\<open>seen\<close>, while run on its own on the incoming context it holds \<^verbatim>\<open>[]\<close>; and the
  object under the outer context's key \<^verbatim>\<open>shared\<close> has changed.
\<close>

theorem parallel_shared_object_counterexample:
  "snd (run_tasks [appender_stage, reader_stage] empty_store shared_ctxt) ! 1 =
      (ascii ''Reader'', Inr [(ascii ''shared'', VRef 0), (ascii ''seen'', VStrs [ascii ''x''])])
   \<and> snd (run_async reader_stage empty_store shared_ctxt) =
      Inr [(ascii ''shared'', VRef 0), (ascii ''seen'', VStrs [])]
   \<and> fst (run_async (ParallelAgent (ascii ''Par'') [appender_stage, reader_stage]) empty_store shared_ctxt) 0
      = VStrs [ascii ''x'']
   \<and> empty_store 0 = VStrs []"
  by (simp add: appender_stage_def reader_stage_def empty_store_def shared_ctxt_def ascii_eq)

text \<open>
  C5, amended: for children that are leaf stages with distinct names,
  \<^verbatim>\<open>ParallelAgent.run_async\<close> returns the incoming context with \<^verbatim>\<open>parallel_results\<close> bound to a dictionary whose keys are the
  children's names and every other key bound as before; the entry of a child is its
  outcome on the incoming top-level bindings, on the store as the earlier children left
  it. For children that leave the store alone (as the stages of the source do, which only
  bind top-level keys) the store is unchanged and every entry is the child's outcome on
  the incoming context and store: no child observes a sibling.
\<close>

theorem parallel_shallow_copy_frame:
  assumes "subs \<noteq> []" and "list_all is_stage subs" and "distinct (map agent_name subs)"
  shows "\<exists>h' res.
      run_async (ParallelAgent n subs) h c = (h', Inr (AList.update parallel_results_key (VDict res) c))
    \<and> (\<forall>k. k \<noteq> parallel_results_key \<longrightarrow>
           map_of (AList.update parallel_results_key (VDict res) c) k = map_of c k)
    \<and> map_of (AList.update parallel_results_key (VDict res) c) parallel_results_key = Some (VDict res)
    \<and> fst ` set res = agent_name ` set subs
    \<and> (\<forall>i<length subs. map_of res (agent_name (subs ! i)) = Some (result_value (branch_outcome subs h c i)))
    \<and> ((\<forall>a h c. a \<in> set subs \<longrightarrow> fst (run_async a h c) = h) \<longrightarrow>
          h' = h \<and> (\<forall>i<length subs. branch_outcome subs h c i = snd (run_async (subs ! i) h c)))"
proof -
  let ?res = "collect_results (snd (run_tasks subs h c)) []"
  let ?h' = "fst (run_tasks subs h c)"
  have run: "run_async (ParallelAgent n subs) h c = (?h', Inr (AList.update parallel_results_key (VDict ?res) c))"
    unfolding parallel_results_key_def using assms(1) by (rule run_parallel_nonempty)
  have frame: "\<forall>k. k \<noteq> parallel_results_key \<longrightarrow>
           map_of (AList.update parallel_results_key (VDict ?res) c) k = map_of c k"
    by (simp add: update_other)
  have bound: "map_of (AList.update parallel_results_key (VDict ?res) c) parallel_results_key = Some (VDict ?res)"
    by (rule update_same)
  have keys: "fst ` set ?res = agent_name ` set subs" by (rule parallel_results_keys)
  have entries: "\<forall>i<length subs. map_of ?res (agent_name (subs ! i)) = Some (result_value (branch_outcome subs h c i))"
    using assms(3) by (simp add: parallel_results_entry)
  have transparent: "(\<forall>a h c. a \<in> set subs \<longrightarrow> fst (run_async a h c) = h) \<longrightarrow>
          ?h' = h \<and> (\<forall>i<length subs. branch_outcome subs h c i = snd (run_async (subs ! i) h c))"
  proof (intro impI conjI allI)
    assume t: "\<forall>a h c. a \<in> set subs \<longrightarrow> fst (run_async a h c) = h"
    then show "?h' = h" by (intro fst_run_tasks_transparent) blast
    fix i
    assume i: "i < length subs"
    have "fst (run_tasks (take i subs) h c) = h"
    proof (rule fst_run_tasks_transparent)
      fix a h c assume "a \<in> set (take i subs)"
      then have "a \<in> set subs" by (rule in_set_takeD)
      with t show "fst (run_async a h c) = h" by blast
    qed
    then show "branch_outcome subs h c i = snd (run_async (subs ! i) h c)"
      by (simp add: branch_outcome_def)
  qed
  from run frame bound keys entries transparent show ?thesis by blast
qed

text \<open>
  C6: for child stages (leaf stages) with distinct names, when the \<open>i\<close>-th child
  raises \<open>e\<close> the composer still returns a context, in which \<^verbatim>\<open>parallel_results\<close> maps
  that child's name to \<^verbatim>\<open>{'error': str(e)}\<close> and every sibling's name to the sibling's
  own outcome; and a sibling's outcome is the same as with any stage in the \<open>i\<close>-th place
  that has the same effect on the store, whether it raises or returns.
\<close>

theorem parallel_child_error_captured:
  assumes "i < length subs" and "list_all is_stage subs" and "distinct (map agent_name subs)"
    and "branch_outcome subs h c i = Inl e"
  shows "\<exists>h' res.
      run_async (ParallelAgent n subs) h c = (h', Inr (AList.update parallel_results_key (VDict res) c))
    \<and> map_of res (agent_name (subs ! i)) = Some (VDict [(ascii ''error'', VErr e)])
    \<and> (\<forall>j<length subs. j \<noteq> i \<longrightarrow>
          map_of res (agent_name (subs ! j)) = Some (result_value (branch_outcome subs h c j)))
    \<and> (\<forall>a' j. j < length subs \<and> j \<noteq> i \<and> is_stage a'
                \<and> (\<forall>h c. fst (run_async a' h c) = fst (run_async (subs ! i) h c)) \<longrightarrow>
          branch_outcome (subs[i := a']) h c j = branch_outcome subs h c j)"
proof -
  let ?res = "collect_results (snd (run_tasks subs h c)) []"
  let ?h' = "fst (run_tasks subs h c)"
  from assms(1) have ne: "subs \<noteq> []" by auto
  have run: "run_async (ParallelAgent n subs) h c = (?h', Inr (AList.update parallel_results_key (VDict ?res) c))"
    unfolding parallel_results_key_def using ne by (rule run_parallel_nonempty)
  have "map_of ?res (agent_name (subs ! i)) = Some (result_value (branch_outcome subs h c i))"
    using assms(1,3) by (rule parallel_results_entry)
  then have mine: "map_of ?res (agent_name (subs ! i)) = Some (VDict [(ascii ''error'', VErr e)])"
    by (simp add: assms(4))
  have others: "\<forall>j<length subs. j \<noteq> i \<longrightarrow>
          map_of ?res (agent_name (subs ! j)) = Some (result_value (branch_outcome subs h c j))"
    using assms(3) by (simp add: parallel_results_entry)
  have same: "\<forall>a' j. j < length subs \<and> j \<noteq> i \<and> is_stage a'
                \<and> (\<forall>h c. fst (run_async a' h c) = fst (run_async (subs ! i) h c)) \<longrightarrow>
          branch_outcome (subs[i := a']) h c j = branch_outcome subs h c j"
  proof (intro allI impI)
    fix a' j
    assume a: "j < length subs \<and> j \<noteq> i \<and> is_stage a'
                \<and> (\<forall>h c. fst (run_async a' h c) = fst (run_async (subs ! i) h c))"
    have "fst (run_tasks (take j (subs[i := a'])) h c) = fst (run_tasks (take j subs) h c)"
    proof (rule fst_run_tasks_same_effect)
      show "length (take j (subs[i := a'])) = length (take j subs)" by simp
    next
      fix k h c
      assume k: "k < length (take j (subs[i := a']))"
      then have kj: "k < j" and kl: "k < length subs" by simp_all
      show "fst (run_async (take j (subs[i := a']) ! k) h c) = fst (run_async (take j subs ! k) h c)"
      proof (cases "k = i")
        case True
        with kj kl a show ?thesis by simp
      next
        case False
        with kj kl show ?thesis by simp
      qed
    qed
    with a show "branch_outcome (subs[i := a']) h c j = branch_outcome subs h c j"
      by (simp add: branch_outcome_def)
  qed
  from run mine others same show ?thesis by blast
qed

lemma stage_names_distinct: "distinct (map agent_name [failing_stage, marker_stage])"
  by (simp add: failing_stage_def marker_stage_def ascii_eq)

lemma example_stages_leaf: "list_all is_stage [failing_stage, marker_stage]"
  by (simp add: failing_stage_def marker_stage_def)

text \<open>C6, witness: the failing stage beside the marker stage.\<close>

theorem parallel_child_error_captured_witness:
  "(0::nat) < length [failing_stage, marker_stage]
   \<and> list_all is_stage [failing_stage, marker_stage]
   \<and> distinct (map agent_name [failing_stage, marker_stage])
   \<and> branch_outcome [failing_stage, marker_stage] empty_store [] 0 = Inl (Raised (ascii ''boom''))
   \<and> (\<exists>h' res.
      run_async (ParallelAgent (ascii ''Par'') [failing_stage, marker_stage]) empty_store [] =
         (h', Inr (AList.update parallel_results_key (VDict res) []))
    \<and> map_of res (agent_name ([failing_stage, marker_stage] ! 0)) = Some (VDict [(ascii ''error'', VErr (Raised (ascii ''boom'')))])
    \<and> map_of res (agent_name ([failing_stage, marker_stage] ! 1)) = Some (VDict [(ascii ''done'', VInt 1)]))"
proof -
  have l: "(0::nat) < length [failing_stage, marker_stage]" by simp
  have b: "branch_outcome [failing_stage, marker_stage] empty_store [] 0 = Inl (Raised (ascii ''boom''))"
    by (simp add: branch_outcome_def failing_stage_def)
  have m: "result_value (branch_outcome [failing_stage, marker_stage] empty_store [] 1) = VDict [(ascii ''done'', VInt 1)]"
    by (simp add: branch_outcome_def failing_stage_def marker_stage_def)
  from parallel_child_error_captured [OF l example_stages_leaf stage_names_distinct b, of "ascii ''Par''"]
  obtain h' res where
    r: "run_async (ParallelAgent (ascii ''Par'') [failing_stage, marker_stage]) empty_store [] =
         (h', Inr (AList.update parallel_results_key (VDict res) []))"
    and e: "map_of res (agent_name ([failing_stage, marker_stage] ! 0)) = Some (VDict [(ascii ''error'', VErr (Raised (ascii ''boom'')))])"
    and o: "\<forall>j<length [failing_stage, marker_stage]. j \<noteq> 0 \<longrightarrow>
          map_of res (agent_name ([failing_stage, marker_stage] ! j)) =
            Some (result_value (branch_outcome [failing_stage, marker_stage] empty_store [] j))"
    by blast
  from o have "map_of res (agent_name ([failing_stage, marker_stage] ! 1)) =
            Some (result_value (branch_outcome [failing_stage, marker_stage] empty_store [] 1))"
    by simp
  with m have o1: "map_of res (agent_name ([failing_stage, marker_stage] ! 1)) = Some (VDict [(ascii ''done'', VInt 1)])"
    by simp
  from l example_stages_leaf stage_names_distinct b r e o1 show ?thesis by blast
qed

text \<open>C5, witness: the two example stages on a context that binds \<^verbatim>\<open>query\<close>.\<close>

theorem parallel_shallow_copy_frame_witness:
  "[failing_stage, marker_stage] \<noteq> []
   \<and> list_all is_stage [failing_stage, marker_stage]
   \<and> distinct (map agent_name [failing_stage, marker_stage])
   \<and> (\<exists>h' res.
      run_async (ParallelAgent (ascii ''Par'') [failing_stage, marker_stage]) empty_store [(ascii ''query'', VStr (ascii ''q''))] =
        (h', Inr (AList.update parallel_results_key (VDict res) [(ascii ''query'', VStr (ascii ''q''))]))
    \<and> map_of (AList.update parallel_results_key (VDict res) [(ascii ''query'', VStr (ascii ''q''))]) (ascii ''query'')
        = Some (VStr (ascii ''q''))
    \<and> fst ` set res = agent_name ` set [failing_stage, marker_stage])"
proof -
  have ne: "[failing_stage, marker_stage] \<noteq> []" by simp
  from parallel_shallow_copy_frame [OF ne example_stages_leaf stage_names_distinct, of "ascii ''Par''" empty_store "[(ascii ''query'', VStr (ascii ''q''))]"]
  obtain h' res where
    r: "run_async (ParallelAgent (ascii ''Par'') [failing_stage, marker_stage]) empty_store [(ascii ''query'', VStr (ascii ''q''))] =
        (h', Inr (AList.update parallel_results_key (VDict res) [(ascii ''query'', VStr (ascii ''q''))]))"
    and f: "\<forall>k. k \<noteq> parallel_results_key \<longrightarrow>
           map_of (AList.update parallel_results_key (VDict res) [(ascii ''query'', VStr (ascii ''q''))]) k
             = map_of [(ascii ''query'', VStr (ascii ''q''))] k"
    and k: "fst ` set res = agent_name ` set [failing_stage, marker_stage]"
    by blast
  have "ascii ''query'' \<noteq> parallel_results_key" by (simp add: parallel_results_key_def ascii_eq)
  with f have "map_of (AList.update parallel_results_key (VDict res) [(ascii ''query'', VStr (ascii ''q''))]) (ascii ''query'')
        = map_of [(ascii ''query'', VStr (ascii ''q''))] (ascii ''query'')" by blast
  then have q: "map_of (AList.update parallel_results_key (VDict res) [(ascii ''query'', VStr (ascii ''q''))]) (ascii ''query'')
        = Some (VStr (ascii ''q''))" by simp
  from ne example_stages_leaf stage_names_distinct r q k show ?thesis by blast
qed

section \<open>Summary composition\<close>




lemma length_strip_le: "length (strip s) \<le> length s"
proof -
  have "length (strip s) \<le> length (dropWhile is_space s)"
    unfolding strip_def by (simp add: length_dropWhile_le order_trans [OF length_dropWhile_le])
  also have "\<dots> \<le> length s" by (rule length_dropWhile_le)
  finally show ?thesis .
qed



















section \<open>Sentence selection\<close>

lemma scan_spec_length: "length (scan_spec rt accepted xs) \<le> max 3 (length accepted)"
proof (induction xs arbitrary: accepted)
  case Nil
  then show ?case by simp
next
  case (Cons x xs)
  show ?case
  proof (cases "3 \<le> length accepted")
    case True
    then show ?thesis by simp
  next
    case False
    show ?thesis
    proof (cases "accepts_spec rt accepted x")
      case True
      with False Cons.IH [of "accepted @ [x]"] show ?thesis by simp
    next
      case no: False
      with False Cons.IH [of accepted] show ?thesis by simp
    qed
  qed
qed

lemma scan_spec_set: "set (scan_spec rt accepted xs) \<subseteq> set accepted \<union> set xs"
proof (induction xs arbitrary: accepted)
  case Nil
  then show ?case by simp
next
  case (Cons x xs)
  from Cons.IH [of "accepted @ [x]"] Cons.IH [of accepted] show ?case by auto
qed

lemma select_loop_refines:
  "list_all (\<lambda>s. hashable (s_source s)) xs \<Longrightarrow>
   set used = s_source ` set accepted \<Longrightarrow>
   set cov = \<Union> (theme_set rt ` set accepted) \<Longrightarrow>
   select_loop rt xs accepted used cov = Inr (scan_spec rt accepted xs)"
proof (induction xs arbitrary: accepted used cov)
  case Nil
  then show ?case by simp
next
  case (Cons x xs)
  from Cons.prems(1) have hx: "hashable (s_source x)" and hxs: "list_all (\<lambda>s. hashable (s_source s)) xs"
    by simp_all
  let ?themes = "remdups (extract_themes_from_text rt (s_text x))"
  have src: "(s_source x \<notin> set used) = (s_source x \<notin> s_source ` set accepted)"
    by (simp only: Cons.prems(2))
  have thd: "(\<not> list_ex (\<lambda>t. t \<in> set cov) ?themes) = (theme_set rt x \<inter> \<Union> (theme_set rt ` set accepted) = {})"
    unfolding list_ex_iff Cons.prems(3) theme_set_def by auto
  have acc: "((s_source x \<notin> set used \<or> length accepted < 2)
        \<and> ((\<not> list_ex (\<lambda>t. t \<in> set cov) ?themes \<or> length accepted < 2) \<or> 7 / 10 < s_score x))
       = accepts_spec rt accepted x"
    unfolding src thd accepts_spec_def by blast
  show ?case
  proof (cases "3 \<le> length accepted")
    case True
    then show ?thesis by simp
  next
    case False
    have step: "select_loop rt (x # xs) accepted used cov =
        (if accepts_spec rt accepted x
         then select_loop rt xs (accepted @ [x]) (s_source x # used) (cov @ ?themes)
         else select_loop rt xs accepted used cov)"
      unfolding acc [symmetric] using False hx by (simp add: Let_def)
    show ?thesis
    proof (cases "accepts_spec rt accepted x")
      case True
      have u: "set (s_source x # used) = s_source ` set (accepted @ [x])"
        using Cons.prems(2) by auto
      have c: "set (cov @ ?themes) = \<Union> (theme_set rt ` set (accepted @ [x]))"
        using Cons.prems(3) by (auto simp: theme_set_def)
      have "select_loop rt (x # xs) accepted used cov =
            select_loop rt xs (accepted @ [x]) (s_source x # used) (cov @ ?themes)"
        using step True by simp
      also have "\<dots> = Inr (scan_spec rt (accepted @ [x]) xs)"
        by (rule Cons.IH [OF hxs u c])
      finally show ?thesis using False True by simp
    next
      case no: False
      have "select_loop rt (x # xs) accepted used cov = select_loop rt xs accepted used cov"
        using step no by simp
      also have "\<dots> = Inr (scan_spec rt accepted xs)"
        by (rule Cons.IH [OF hxs Cons.prems(2,3)])
      finally show ?thesis using False no by simp
    qed
  qed
qed

text \<open>
  C7: when the sources of the scanned candidates are hashable (strings, as the data model
  has it), \<^verbatim>\<open>_select_summary_sentences\<close> returns what the policy of the specification
  selects: it scans the first 10 candidates in order, accepts a candidate exactly when
  (its source is not the source of an accepted sentence or fewer than 2 are accepted) and
  (its themes are disjoint from the themes of the accepted sentences, or fewer than 2 are
  accepted, or its score exceeds 0.7), and stops once 3 are accepted. The result has at
  most 3 sentences, all among the first 10 candidates; the theme table is not consulted.
\<close>

theorem select_summary_sentences_policy:
  assumes "list_all (\<lambda>s. hashable (s_source s)) (take 10 sentences)"
  shows "select_summary_sentences rt sentences themes = Inr (select_spec rt sentences)
       \<and> length (select_spec rt sentences) \<le> 3
       \<and> set (select_spec rt sentences) \<subseteq> set (take 10 sentences)"
proof -
  have "select_loop rt (take 10 sentences) [] [] [] = Inr (scan_spec rt [] (take 10 sentences))"
    using assms by (rule select_loop_refines) simp_all
  then have a: "select_summary_sentences rt sentences themes = Inr (select_spec rt sentences)"
    by (cases "sentences = []") (simp_all add: select_summary_sentences_def select_spec_def)
  have b: "length (select_spec rt sentences) \<le> 3"
    using scan_spec_length [of rt "[]" "take 10 sentences"] by (simp add: select_spec_def)
  have c: "set (select_spec rt sentences) \<subseteq> set (take 10 sentences)"
    using scan_spec_set [of rt "[]" "take 10 sentences"] by (simp add: select_spec_def)
  from a b c show ?thesis by blast
qed

lemma example_themes:
  "extract_themes_from_text ascii_rt (ascii ''alpha bravo'') = [ascii ''alpha'', ascii ''bravo'']"
  "extract_themes_from_text ascii_rt (ascii ''alpha delta'') = [ascii ''alpha'', ascii ''delta'']"
  "extract_themes_from_text ascii_rt (ascii ''gamma kappa'') = [ascii ''gamma'', ascii ''kappa'']"
  "extract_themes_from_text ascii_rt (ascii ''alpha sigma'') = [ascii ''alpha'', ascii ''sigma'']"
  "extract_themes_from_text ascii_rt (ascii ''omega theta'') = [ascii ''omega'', ascii ''theta'']"
  by (simp_all add: extract_themes_from_text_def findall_words_def ascii_rt_def ascii_def)

lemma example_selection:
  "select_spec ascii_rt example_candidates =
     [candidate ''alpha bravo'' (9 / 10) ''a.org'',
      candidate ''alpha delta'' (6 / 10) ''a.org'',
      candidate ''omega theta'' (3 / 10) ''c.org'']"
  by (simp add: select_spec_def example_candidates_def accepts_spec_def theme_set_def candidate_def
        example_themes ascii_eq)

text \<open>
  C7, witness: of six candidates the first two are accepted freely; the third repeats a used
  source, the fourth a covered theme with a score that does not exceed 0.7; the fifth is
  accepted and the scan stops.
\<close>

theorem select_summary_sentences_policy_witness:
  "list_all (\<lambda>s. hashable (s_source s)) (take 10 example_candidates)
   \<and> select_summary_sentences ascii_rt example_candidates [] =
       Inr [candidate ''alpha bravo'' (9 / 10) ''a.org'',
            candidate ''alpha delta'' (6 / 10) ''a.org'',
            candidate ''omega theta'' (3 / 10) ''c.org'']"
proof -
  have h: "list_all (\<lambda>s. hashable (s_source s)) (take 10 example_candidates)"
    by (simp add: example_candidates_def candidate_def)
  from select_summary_sentences_policy [OF h, of ascii_rt "[]"]
  have "select_summary_sentences ascii_rt example_candidates [] = Inr (select_spec ascii_rt example_candidates)"
    by blast
  with h show ?thesis by (simp only: example_selection)
qed

section \<open>Sentence scoring\<close>

lemma split_storm:
  "py_split (ascii ''the storm hit the coast today'') =
     [ascii ''the'', ascii ''storm'', ascii ''hit'', ascii ''the'', ascii ''coast'', ascii ''today'']"
  by (simp add: py_split_def ascii_def is_space_def)

lemma split_weather: "py_split (ascii ''the weather'') = [ascii ''the'', ascii ''weather'']"
  by (simp add: py_split_def ascii_def is_space_def)

lemma lower_storm:
  "lower ascii_rt (ascii ''the storm hit the coast today'') = ascii ''the storm hit the coast today''"
  "lower ascii_rt (ascii ''the weather'') = ascii ''the weather''"
  by (simp_all add: ascii_rt_def ascii_def)

text \<open>
  C8: the code does not do what the claim says. \<^verbatim>\<open>ContentAnalyzerAgent._score_sentence\<close>
  receives the language and never uses it: no stop word is removed from the query. For the
  query \<^verbatim>\<open>the weather\<close> and the first result's sentence
  \<^verbatim>\<open>the storm hit the coast today\<close> it counts the stop word \<^verbatim>\<open>the\<close> as a matching
  query term and scores 0.63; the score of the specification is 0.38.
\<close>

theorem score_sentence_keeps_stop_words:
  "score_sentence ascii_rt (ascii ''the storm hit the coast today'') (ascii ''the weather'') 0 (ascii ''english'')
     = 63 / 100
   \<and> score_sentence_spec ascii_rt (ascii ''the storm hit the coast today'') (ascii ''the weather'') 0 (ascii ''english'')
     = 38 / 100"
  by (simp add: score_sentence_def score_sentence_spec_def split_storm split_weather lower_storm
        overlap_count_def ascii_eq dict_get_def stop_words_def Let_def)

section \<open>Unknown language tags\<close>

lemma unsupported_keys:
  assumes "language \<notin> supported_languages"
  shows "language \<noteq> ascii ''hindi''" "language \<noteq> ascii ''telugu''"
    "language \<noteq> ascii ''marathi''" "language \<noteq> ascii ''english''"
  using assms by (simp_all add: supported_languages_def)

lemma unsupported_stop_words:
  "language \<notin> supported_languages \<Longrightarrow> dict_get stop_words language [] = []"
  by (simp add: dict_get_def stop_words_def unsupported_keys)

lemma unsupported_ai_stop_words:
  "language \<notin> supported_languages \<Longrightarrow> dict_get ai_stop_words language [] = []"
  by (simp add: dict_get_def ai_stop_words_def unsupported_keys)

lemma unsupported_prefix:
  "language \<notin> supported_languages \<Longrightarrow>
   dict_get prefixes language ([128221] @ ascii '' **AI Summary**: '') = [128221] @ ascii '' **AI Summary**: ''"
  by (simp add: dict_get_def prefixes_def unsupported_keys)

lemma english_prefix:
  "dict_get prefixes (ascii ''english'') ([128221] @ ascii '' **AI Summary**: '') = [128221] @ ascii '' **AI Summary**: ''"
  by (simp add: dict_get_def prefixes_def ascii_eq)

lemma unsupported_ai_intro:
  "language \<notin> supported_languages \<Longrightarrow>
   dict_get ai_intros language ([128221] @ ascii '' **AI Summary**: '') = [128221] @ ascii '' **AI Summary**: ''"
  by (simp add: dict_get_def ai_intros_def unsupported_keys)

lemma english_ai_intro:
  "dict_get ai_intros (ascii ''english'') ([128221] @ ascii '' **AI Summary**: '') = [128221] @ ascii '' **AI Summary**: ''"
  by (simp add: dict_get_def ai_intros_def ascii_eq)

lemma get_or_english_fallback:
  "map_of messages language = None \<Longrightarrow>
   get_or_english messages language = get_or_english messages (ascii ''english'')"
  by (simp add: get_or_english_def split: option.splits)

lemma unsupported_no_content:
  "language \<notin> supported_languages \<Longrightarrow> map_of no_content_messages language = None"
  by (simp add: no_content_messages_def unsupported_keys)

lemma unsupported_clarifications:
  "language \<notin> supported_languages \<Longrightarrow> map_of clarifications language = None"
  by (simp add: clarifications_def unsupported_keys)

lemma unsupported_themes_insight:
  "language \<notin> supported_languages \<Longrightarrow> map_of (themes_insight_formats t) language = None"
  by (simp add: themes_insight_formats_def unsupported_keys)

lemma unsupported_source_insight:
  "language \<notin> supported_languages \<Longrightarrow> map_of (source_insight_formats n) language = None"
  by (simp add: source_insight_formats_def unsupported_keys)

lemma unsupported_entity_insight:
  "language \<notin> supported_languages \<Longrightarrow> map_of (entity_insight_formats t) language = None"
  by (simp add: entity_insight_formats_def unsupported_keys)

lemma unsupported_error_messages:
  "language \<notin> supported_languages \<Longrightarrow> map_of error_messages language = None"
  by (simp add: error_messages_def unsupported_keys)

lemma unsupported_no_results_messages:
  "language \<notin> supported_languages \<Longrightarrow> map_of no_results_messages language = None"
  by (simp add: no_results_messages_def unsupported_keys)

lemma unsupported_ai_messages:
  "language \<notin> supported_languages \<Longrightarrow> map_of ai_messages language = None"
  by (simp add: ai_messages_def unsupported_keys)

lemma filter_no_stop: "filter (\<lambda>w. w \<notin> set []) xs = xs"
  by simp

text \<open>
  C9, as stated, fails for the stop words: an unknown language tag gets the empty stop-word
  set (\<^verbatim>\<open>stop_words.get(language, set())\<close>), not the english one. For the tag
  \<^verbatim>\<open>klingon\<close> theme extraction keeps the english stop word \<^verbatim>\<open>with\<close>, which it drops
  for \<^verbatim>\<open>english\<close>.
\<close>

theorem unknown_language_stop_words_counterexample:
  "ascii ''klingon'' \<notin> supported_languages
   \<and> extract_themes ascii_rt (ascii ''with great power'') (ascii ''klingon'') =
       [ascii ''with'', ascii ''great'', ascii ''power'']
   \<and> extract_themes ascii_rt (ascii ''with great power'') (ascii ''english'') =
       [ascii ''great'', ascii ''power'']"
proof -
  have k: "ascii ''klingon'' \<notin> supported_languages"
    by (simp add: supported_languages_def ascii_eq)
  have w: "findall_words ascii_rt (lower ascii_rt (ascii ''with great power'')) =
      [ascii ''with'', ascii ''great'', ascii ''power'']"
    by (simp add: findall_words_def ascii_rt_def ascii_def)
  have a: "extract_themes ascii_rt (ascii ''with great power'') (ascii ''klingon'') =
       [ascii ''with'', ascii ''great'', ascii ''power'']"
    by (simp add: extract_themes_def w unsupported_stop_words [OF k] length_ascii)
  have b: "extract_themes ascii_rt (ascii ''with great power'') (ascii ''english'') =
       [ascii ''great'', ascii ''power'']"
    by (simp add: extract_themes_def w dict_get_def stop_words_def ascii_eq length_ascii)
  from k a b show ?thesis by blast
qed

text \<open>
  C9, amended: for a language tag outside hindi, telugu, marathi and english no table
  lookup raises; the stop-word lookups of theme extraction and of the lightweight sentence
  scoring fall back to the empty set, so that no word is removed as a stop word; the
  labels and messages (summary label, no-content message, too-short caveat, insight
  formats, error and no-results messages, the lightweight summarizer's label and default
  messages) are the english ones.
\<close>

theorem unknown_language_fallbacks:
  assumes "language \<notin> supported_languages"
  shows "extract_themes rt sentence language =
           take 3 (filter (\<lambda>w. 3 < length w) (findall_words rt (lower rt sentence)))
       \<and> ai_score_sentence rt sentence query position language =
           min ((3 - of_nat position) / 3 * position_weight
                + min (of_nat (length (py_split sentence)) / 20) 1 * length_weight
                + (if remdups (py_split (lower rt query)) \<noteq> []
                   then of_nat (overlap_count (remdups (py_split (lower rt query)))
                                  (remdups (py_split (lower rt sentence))))
                        / of_nat (length (remdups (py_split (lower rt query)))) * keyword_weight
                   else 0)) 1
       \<and> format_summary_for_language summary language = format_summary_for_language summary (ascii ''english'')
       \<and> get_no_content_message language = get_no_content_message (ascii ''english'')
       \<and> get_or_english clarifications language = get_or_english clarifications (ascii ''english'')
       \<and> format_themes_insight ts language = format_themes_insight ts (ascii ''english'')
       \<and> format_source_insight n language = format_source_insight n (ascii ''english'')
       \<and> format_entity_insight es language = format_entity_insight es (ascii ''english'')
       \<and> get_or_english error_messages language = get_or_english error_messages (ascii ''english'')
       \<and> get_or_english no_results_messages language = get_or_english no_results_messages (ascii ''english'')
       \<and> ai_format_summary_for_language summary language = ai_format_summary_for_language summary (ascii ''english'')
       \<and> ai_get_default_message language message_type = ai_get_default_message (ascii ''english'') message_type"
proof -
  note u = assms
  have c1: "extract_themes rt sentence language =
           take 3 (filter (\<lambda>w. 3 < length w) (findall_words rt (lower rt sentence)))"
    by (simp add: extract_themes_def unsupported_stop_words [OF u])
  have c2: "ai_score_sentence rt sentence query position language =
           min ((3 - of_nat position) / 3 * position_weight
                + min (of_nat (length (py_split sentence)) / 20) 1 * length_weight
                + (if remdups (py_split (lower rt query)) \<noteq> []
                   then of_nat (overlap_count (remdups (py_split (lower rt query)))
                                  (remdups (py_split (lower rt sentence))))
                        / of_nat (length (remdups (py_split (lower rt query)))) * keyword_weight
                   else 0)) 1"
    by (simp add: ai_score_sentence_def unsupported_ai_stop_words [OF u] Let_def)
  have c3: "format_summary_for_language summary language = format_summary_for_language summary (ascii ''english'')"
    by (simp only: format_summary_for_language_def unsupported_prefix [OF u] english_prefix)
  have c4: "get_no_content_message language = get_no_content_message (ascii ''english'')"
    unfolding get_no_content_message_def
    by (rule get_or_english_fallback [OF unsupported_no_content [OF u]])
  have c5: "get_or_english clarifications language = get_or_english clarifications (ascii ''english'')"
    by (rule get_or_english_fallback [OF unsupported_clarifications [OF u]])
  have c6: "format_themes_insight ts language = format_themes_insight ts (ascii ''english'')"
    unfolding format_themes_insight_def
    by (rule get_or_english_fallback [OF unsupported_themes_insight [OF u]])
  have c7: "format_source_insight n language = format_source_insight n (ascii ''english'')"
    unfolding format_source_insight_def
    by (rule get_or_english_fallback [OF unsupported_source_insight [OF u]])
  have c8: "format_entity_insight es language = format_entity_insight es (ascii ''english'')"
    unfolding format_entity_insight_def
    by (rule get_or_english_fallback [OF unsupported_entity_insight [OF u]])
  have c9: "get_or_english error_messages language = get_or_english error_messages (ascii ''english'')"
    by (rule get_or_english_fallback [OF unsupported_error_messages [OF u]])
  have c10: "get_or_english no_results_messages language = get_or_english no_results_messages (ascii ''english'')"
    by (rule get_or_english_fallback [OF unsupported_no_results_messages [OF u]])
  have c11: "ai_format_summary_for_language summary language = ai_format_summary_for_language summary (ascii ''english'')"
    by (simp only: ai_format_summary_for_language_def unsupported_ai_intro [OF u] english_ai_intro)
  have c12: "ai_get_default_message language message_type = ai_get_default_message (ascii ''english'') message_type"
    unfolding ai_get_default_message_def
    by (simp only: get_or_english_fallback [OF unsupported_ai_messages [OF u]])
  from c1 c2 c3 c4 c5 c6 c7 c8 c9 c10 c11 c12 show ?thesis by (intro conjI)
qed

text \<open>C9, witness: the tag \<^verbatim>\<open>klingon\<close>, with the english label and no-content message.\<close>

theorem unknown_language_fallbacks_witness:
  "ascii ''klingon'' \<notin> supported_languages
   \<and> format_summary_for_language (ascii ''text'') (ascii ''klingon'') = [128221] @ ascii '' **AI Summary**: text''
   \<and> get_no_content_message (ascii ''klingon'') = ascii ''Insufficient content available.''
   \<and> extract_themes ascii_rt (ascii ''with great power'') (ascii ''klingon'') =
       [ascii ''with'', ascii ''great'', ascii ''power'']"
proof -
  have k: "ascii ''klingon'' \<notin> supported_languages"
    by (simp add: supported_languages_def ascii_eq)
  note f = unknown_language_fallbacks [OF k, of ascii_rt "ascii ''with great power''" "[]" 0 "ascii ''text''" "[]" 0 "[]" "[]"]
  have w: "findall_words ascii_rt (lower ascii_rt (ascii ''with great power'')) =
      [ascii ''with'', ascii ''great'', ascii ''power'']"
    by (simp add: findall_words_def ascii_rt_def ascii_def)
  from f have "format_summary_for_language (ascii ''text'') (ascii ''klingon'') =
      format_summary_for_language (ascii ''text'') (ascii ''english'')" by blast
  then have "format_summary_for_language (ascii ''text'') (ascii ''klingon'') =
      ([128221] @ ascii '' **AI Summary**: '') @ ascii ''text''"
    by (simp only: format_summary_for_language_def english_prefix)
  then have a: "format_summary_for_language (ascii ''text'') (ascii ''klingon'') = [128221] @ ascii '' **AI Summary**: text''"
    by (simp add: ascii_def)
  from f have "get_no_content_message (ascii ''klingon'') = get_no_content_message (ascii ''english'')" by blast
  then have b: "get_no_content_message (ascii ''klingon'') = ascii ''Insufficient content available.''"
    by (simp add: get_no_content_message_def get_or_english_def no_content_messages_def ascii_eq)
  from f have "extract_themes ascii_rt (ascii ''with great power'') (ascii ''klingon'') =
      take 3 (filter (\<lambda>w. 3 < length w) (findall_words ascii_rt (lower ascii_rt (ascii ''with great power''))))"
    by blast
  then have c: "extract_themes ascii_rt (ascii ''with great power'') (ascii ''klingon'') =
       [ascii ''with'', ascii ''great'', ascii ''power'']"
    by (simp add: w length_ascii)
  from k a b c show ?thesis by blast
qed

section \<open>The pipeline as a whole\<close>

lemma data_fetcher_run_initial:
  "data_fetcher_run rt (clock AtFetch) (initial_context clock rs q lang mr) =
     (case process_results rt q 0 (slice_to rs mr) of
        Inl e \<Rightarrow> Inl e
      | Inr ps \<Rightarrow> Inr (fetched_context clock rs q lang mr ps))"
  by (simp add: data_fetcher_run_def initial_context_def fetched_context_def get_raw_def get_str_def
        and_then_def ascii_eq split: sum.splits)

lemma fetched_context_lookups:
  "map_of (fetched_context clock rs q lang mr ps) (ascii ''themes'') = None"
  "map_of (fetched_context clock rs q lang mr ps) (ascii ''entities'') = None"
  "map_of (fetched_context clock rs q lang mr ps) (ascii ''analyzed_sentences'') = None"
  "map_of (fetched_context clock rs q lang mr ps) (ascii ''processed_results'') = Some (VProcessed ps)"
  "map_of (fetched_context clock rs q lang mr ps) (ascii ''language'') = Some (VStr lang)"
  "map_of (fetched_context clock rs q lang mr ps) (ascii ''query'') = Some (VStr q)"
  by (simp_all add: fetched_context_def initial_context_def ascii_eq)

lemma insight_extractor_run_fetched:
  "insight_extractor_run now (fetched_context clock rs q lang mr ps) =
     (if list_all hashable (map pr_source ps)
      then Inr (fetched_context clock rs q lang mr ps @
                  [(ascii ''key_insights'', VStrs (source_insights ps lang)),
                   (ascii ''insight_timestamp'', VStr now)])
      else Inl TypeError)"
  by (simp add: insight_extractor_run_def get_themes_def get_strs_def get_processed_def get_str_def
        fetched_context_lookups and_then_def source_insights_def Let_def)
     (simp add: fetched_context_def initial_context_def ascii_eq)

lemma content_analyzer_run_fetched:
  "\<exists>sents themes ents.
     content_analyzer_run rt now (fetched_context clock rs q lang mr ps) =
       Inr (fetched_context clock rs q lang mr ps @
              [(ascii ''analyzed_sentences'', VSentences sents),
               (ascii ''themes'', VThemes themes),
               (ascii ''entities'', VStrs ents),
               (ascii ''analysis_timestamp'', VStr now)])"
proof -
  obtain sentences themes entities where
    f: "fold (analyze_result rt q lang) ps ([], [], []) = (sentences, themes, entities)"
    by (cases "fold (analyze_result rt q lang) ps ([], [], [])") auto
  have "content_analyzer_run rt now (fetched_context clock rs q lang mr ps) =
       Inr (fetched_context clock rs q lang mr ps @
              [(ascii ''analyzed_sentences'', VSentences (sort_key (\<lambda>s. - s_score s) sentences)),
               (ascii ''themes'', VThemes (most_common 10 themes)),
               (ascii ''entities'', VStrs (remdups entities)),
               (ascii ''analysis_timestamp'', VStr now)])"
    by (simp add: content_analyzer_run_def get_processed_def get_str_def fetched_context_lookups
          and_then_def f)
       (simp add: fetched_context_def initial_context_def ascii_eq)
  then show ?thesis by blast
qed

lemma summary_generator_run_no_analysis:
  assumes "map_of c (ascii ''analyzed_sentences'') = None"
    and "map_of c (ascii ''themes'') = None"
    and "map_of c (ascii ''language'') = Some (VStr lang)"
    and "map_of c (ascii ''query'') = Some (VStr q)"
  shows "summary_generator_run rt now c =
     Inr (AList.update (ascii ''generation_timestamp'') (VStr now)
         (AList.update (ascii ''summary_sentences'') (VSentences [])
         (AList.update (ascii ''generated_summary'')
            (VStr (format_summary_for_language (get_no_content_message lang) lang)) c)))"
  by (simp add: summary_generator_run_def get_sentences_def get_themes_def get_str_def assms
        and_then_def select_summary_sentences_def compose_summary_def)

lemma critic_run_typed:
  assumes "map_of c (ascii ''generated_summary'') = Some (VStr g)"
    and "map_of c (ascii ''query'') = Some (VStr q)"
    and "map_of c (ascii ''language'') = Some (VStr lang)"
    and "map_of c (ascii ''themes'') = None"
  shows "critic_run rt now c =
     Inr (AList.update (ascii ''critique_timestamp'') (VStr now)
         (AList.update (ascii ''critic_suggestions'') (VStrs (generate_improvement_suggestions rt g q lang))
         (AList.update (ascii ''quality_score'') (VNum (analyze_summary_quality rt g q []))
         (AList.update (ascii ''final_summary'')
            (VStr (apply_improvements g (generate_improvement_suggestions rt g q lang) lang)) c))))"
  by (simp add: critic_run_def get_themes_def get_str_def assms and_then_def Let_def)

lemma compile_final_result_typed:
  assumes "map_of c (ascii ''parallel_results'') =
             Some (VDict [(ascii ''ContentAnalyzer'', VDict ca), (ascii ''InsightExtractor'', VDict ie)])"
    and "map_of c (ascii ''query'') = Some (VStr q)"
    and "map_of c (ascii ''language'') = Some (VStr lang)"
    and "map_of c (ascii ''final_summary'') = Some (VStr f)"
    and "map_of c (ascii ''quality_score'') = Some (VNum x)"
    and "map_of c (ascii ''processed_results'') = Some (VProcessed ps)"
    and "get_strs c (ascii ''critic_suggestions'') = Inr sg"
    and "get_strs ie (ascii ''key_insights'') = Inr insights"
    and "get_themes ca (ascii ''themes'') = Inr themes"
    and "get_strs ca (ascii ''entities'') = Inr ents"
    and "get_sentences ca (ascii ''analyzed_sentences'') = Inr sents"
  shows "\<exists>r. compile_final_result now c = Inr r \<and> key_insights r = insights
           \<and> summarization_method r = ascii ''multi_agent_agentic''
           \<and> r_query r = q \<and> r_language r = lang \<and> ai_summary r = f \<and> confidence_score r = x
           \<and> source_count r = length ps \<and> sources r = map pr_source (take 3 ps)
           \<and> r_error r = None"
  by (simp add: compile_final_result_def get_dict_def get_str_def get_num_def get_processed_def
        assms and_then_def ascii_eq)

lemma update_conv_apply:
  "map_of (AList.update k v c) k' = (if k' = k then Some v else map_of c k')"
  by (simp add: update_conv')

lemma result_value_dict: "\<exists>d. result_value r = VDict d"
  by (cases r) simp_all

lemma analysis_pipeline_run:
  "run_async (analysis_pipeline rt clock) h c =
     (h, Inr (AList.update (ascii ''parallel_results'')
                (VDict [(ascii ''ContentAnalyzer'', result_value (content_analyzer_run rt (clock AtAnalysis) c)),
                        (ascii ''InsightExtractor'', result_value (insight_extractor_run (clock AtInsight) c))]) c))"
  by (simp add: analysis_pipeline_def content_analyzer_def insight_extractor_def pure_stage_def ascii_eq)

lemma generation_pipeline_run:
  "run_async (generation_pipeline rt clock) h c =
     (h, and_then (summary_generator_run rt (clock AtGeneration) c) (critic_run rt (clock AtCritique)))"
  by (simp add: generation_pipeline_def summary_generator_def critic_def pure_stage_def and_then_def
        split: sum.splits)

lemma main_workflow_run:
  "snd (run_async (main_workflow rt clock) h c) =
     and_then (data_fetcher_run rt (clock AtFetch) c) (\<lambda>c1.
     and_then (snd (run_async (analysis_pipeline rt clock) h c1)) (\<lambda>c2.
       snd (run_async (generation_pipeline rt clock) h c2)))"
  by (simp add: main_workflow_def data_fetcher_def pure_stage_def and_then_def analysis_pipeline_run
        generation_pipeline_run split: sum.splits)

lemma pipeline_success:
  assumes ps: "process_results rt q 0 (slice_to rs mr) = Inr ps"
  shows "\<exists>r. try_body rt clock (initial_context clock rs q lang mr) = Inr r
     \<and> key_insights r = (if list_all hashable (map pr_source ps) then source_insights ps lang else [])
     \<and> summarization_method r = ascii ''multi_agent_agentic''
     \<and> r_query r = q \<and> r_language r = lang
     \<and> source_count r = length ps \<and> sources r = map pr_source (take 3 ps)
     \<and> ai_summary r =
          apply_improvements (format_summary_for_language (get_no_content_message lang) lang)
            (generate_improvement_suggestions rt
               (format_summary_for_language (get_no_content_message lang) lang) q lang) lang
     \<and> confidence_score r =
          analyze_summary_quality rt (format_summary_for_language (get_no_content_message lang) lang) q []
     \<and> r_error r = None"
proof -
  let ?c0 = "initial_context clock rs q lang mr"
  let ?F = "fetched_context clock rs q lang mr ps"
  let ?rIE = "insight_extractor_run (clock AtInsight) ?F"
  let ?rCA = "content_analyzer_run rt (clock AtAnalysis) ?F"
  obtain ca where ca: "result_value ?rCA = VDict ca" using result_value_dict by blast
  obtain ie where ie: "result_value ?rIE = VDict ie" using result_value_dict by blast
  define c2 where "c2 = AList.update (ascii ''parallel_results'')
       (VDict [(ascii ''ContentAnalyzer'', VDict ca), (ascii ''InsightExtractor'', VDict ie)]) ?F"
  define g where "g = format_summary_for_language (get_no_content_message lang) lang"
  define c3 where "c3 = AList.update (ascii ''generation_timestamp'') (VStr (clock AtGeneration))
         (AList.update (ascii ''summary_sentences'') (VSentences [])
         (AList.update (ascii ''generated_summary'') (VStr g) c2))"
  define sg where "sg = generate_improvement_suggestions rt g q lang"
  define c4 where "c4 = AList.update (ascii ''critique_timestamp'') (VStr (clock AtCritique))
         (AList.update (ascii ''critic_suggestions'') (VStrs sg)
         (AList.update (ascii ''quality_score'') (VNum (analyze_summary_quality rt g q []))
         (AList.update (ascii ''final_summary'') (VStr (apply_improvements g sg lang)) c3)))"
  have df: "data_fetcher_run rt (clock AtFetch) ?c0 = Inr ?F"
    by (simp add: data_fetcher_run_initial ps)
  have ap: "snd (run_async (analysis_pipeline rt clock) empty_store ?F) = Inr c2"
    by (simp add: analysis_pipeline_run ca ie c2_def)
  have l2: "map_of c2 (ascii ''analyzed_sentences'') = None" "map_of c2 (ascii ''themes'') = None"
    "map_of c2 (ascii ''language'') = Some (VStr lang)" "map_of c2 (ascii ''query'') = Some (VStr q)"
    by (simp_all add: c2_def update_conv_apply fetched_context_lookups ascii_eq)
  have sgr: "summary_generator_run rt (clock AtGeneration) c2 = Inr c3"
    unfolding c3_def g_def by (rule summary_generator_run_no_analysis [OF l2])
  have l3: "map_of c3 (ascii ''generated_summary'') = Some (VStr g)"
    "map_of c3 (ascii ''query'') = Some (VStr q)" "map_of c3 (ascii ''language'') = Some (VStr lang)"
    "map_of c3 (ascii ''themes'') = None"
    by (simp_all add: c3_def update_conv_apply l2 ascii_eq)
  have cr: "critic_run rt (clock AtCritique) c3 = Inr c4"
    unfolding c4_def sg_def by (rule critic_run_typed [OF l3])
  have gp: "snd (run_async (generation_pipeline rt clock) empty_store c2) = Inr c4"
    by (simp add: generation_pipeline_run sgr cr and_then_def)
  have wf: "snd (run_async (main_workflow rt clock) empty_store ?c0) = Inr c4"
    by (simp add: main_workflow_run df ap gp and_then_def)
  have l4: "map_of c4 (ascii ''parallel_results'') =
             Some (VDict [(ascii ''ContentAnalyzer'', VDict ca), (ascii ''InsightExtractor'', VDict ie)])"
    "map_of c4 (ascii ''query'') = Some (VStr q)"
    "map_of c4 (ascii ''language'') = Some (VStr lang)"
    "map_of c4 (ascii ''final_summary'') = Some (VStr (apply_improvements g sg lang))"
    "map_of c4 (ascii ''quality_score'') = Some (VNum (analyze_summary_quality rt g q []))"
    "map_of c4 (ascii ''processed_results'') = Some (VProcessed ps)"
    by (simp_all add: c4_def c3_def c2_def update_conv_apply fetched_context_lookups ascii_eq)
  have l4s: "get_strs c4 (ascii ''critic_suggestions'') = Inr sg"
    by (simp add: get_strs_def c4_def update_conv_apply ascii_eq)
  have ki: "get_strs ie (ascii ''key_insights'') =
      Inr (if list_all hashable (map pr_source ps) then source_insights ps lang else [])"
  proof (cases "list_all hashable (map pr_source ps)")
    case True
    with ie have "ie = ?F @ [(ascii ''key_insights'', VStrs (source_insights ps lang)),
                   (ascii ''insight_timestamp'', VStr (clock AtInsight))]"
      by (simp add: insight_extractor_run_fetched)
    with True show ?thesis
      by (simp add: get_strs_def fetched_context_def initial_context_def ascii_eq)
  next
    case False
    with ie have "ie = [(ascii ''error'', VErr TypeError)]"
      by (simp add: insight_extractor_run_fetched)
    with False show ?thesis by (simp add: get_strs_def ascii_eq)
  qed
  obtain sents themes ents where
    "?rCA = Inr (?F @ [(ascii ''analyzed_sentences'', VSentences sents),
               (ascii ''themes'', VThemes themes),
               (ascii ''entities'', VStrs ents),
               (ascii ''analysis_timestamp'', VStr (clock AtAnalysis))])"
    using content_analyzer_run_fetched by blast
  with ca have cae: "ca = ?F @ [(ascii ''analyzed_sentences'', VSentences sents),
               (ascii ''themes'', VThemes themes),
               (ascii ''entities'', VStrs ents),
               (ascii ''analysis_timestamp'', VStr (clock AtAnalysis))]"
    by simp
  have ca1: "get_themes ca (ascii ''themes'') = Inr themes"
    by (simp add: cae get_themes_def fetched_context_def initial_context_def ascii_eq)
  have ca2: "get_strs ca (ascii ''entities'') = Inr ents"
    by (simp add: cae get_strs_def fetched_context_def initial_context_def ascii_eq)
  have ca3: "get_sentences ca (ascii ''analyzed_sentences'') = Inr sents"
    by (simp add: cae get_sentences_def fetched_context_def initial_context_def ascii_eq)
  from compile_final_result_typed [OF l4 l4s ki ca1 ca2 ca3, of "clock AtResult"]
  obtain r where r: "compile_final_result (clock AtResult) c4 = Inr r"
    and rest: "key_insights r = (if list_all hashable (map pr_source ps) then source_insights ps lang else [])"
      "summarization_method r = ascii ''multi_agent_agentic''"
      "r_query r = q" "r_language r = lang"
      "source_count r = length ps" "sources r = map pr_source (take 3 ps)"
      "ai_summary r = apply_improvements g sg lang"
      "confidence_score r = analyze_summary_quality rt g q []"
      "r_error r = None"
    by blast
  have "try_body rt clock ?c0 = Inr r"
    by (simp add: try_body_def wf r and_then_def)
  with rest show ?thesis unfolding sg_def g_def by blast
qed

lemma pipeline_failure:
  assumes "process_results rt q 0 (slice_to rs mr) = Inl e"
  shows "try_body rt clock (initial_context clock rs q lang mr) = Inl e"
  by (simp add: try_body_def main_workflow_run data_fetcher_run_initial assms and_then_def)

lemma error_result_initial:
  "generate_error_result now (initial_context clock rs q lang mr) e =
     Inr \<lparr> r_query = q, r_language = lang,
           ai_summary = get_or_english error_messages lang,
           key_insights = [], confidence_score = 0, source_count = 0, sources = [],
           timestamp = now, summarization_method = ascii ''error_fallback'',
           r_execution_details = None, r_error = Some e \<rparr>"
  by (simp add: generate_error_result_def get_str_def initial_context_def and_then_def ascii_eq)

lemma insight_heads:
  "hd (format_source_insight n lang) = 128202"
  "hd (format_themes_insight ts lang) = 128269"
  "hd (format_entity_insight es lang) = 127991"
  by (simp_all add: format_source_insight_def format_themes_insight_def format_entity_insight_def
        get_or_english_def source_insight_formats_def themes_insight_formats_def
        entity_insight_formats_def ascii_eq)

lemma source_insights_shape:
  "length (source_insights ps lang) \<le> 1"
  "format_themes_insight ts lang \<notin> set (source_insights ps lang)"
  "format_entity_insight es lang \<notin> set (source_insights ps lang)"
proof -
  show "length (source_insights ps lang) \<le> 1" by (simp add: source_insights_def)
  have "format_themes_insight ts lang \<noteq> format_source_insight n lang" for n
    using insight_heads(1) [of n lang] insight_heads(2) [of ts lang] by auto
  then show "format_themes_insight ts lang \<notin> set (source_insights ps lang)"
    by (simp add: source_insights_def)
  have "format_entity_insight es lang \<noteq> format_source_insight n lang" for n
    using insight_heads(1) [of n lang] insight_heads(3) [of es lang] by auto
  then show "format_entity_insight es lang \<notin> set (source_insights ps lang)"
    by (simp add: source_insights_def)
qed

lemma methods_differ:
  "ascii ''no_results_fallback'' \<noteq> ascii ''multi_agent_agentic''"
  "ascii ''error_fallback'' \<noteq> ascii ''multi_agent_agentic''"
  by (simp_all add: ascii_eq)

lemma insight_branch:
  "branch_outcome [content_analyzer rt clock, insight_extractor clock] empty_store c 1 =
     insight_extractor_run (clock AtInsight) c"
  by (simp add: branch_outcome_def content_analyzer_def insight_extractor_def pure_stage_def)

text \<open>
  C1 (spec-modelled for the orchestrator): with an empty list of results the hybrid
  orchestrator of the specification invokes neither path, whatever the paths and the
  configuration are, and its result has \<^verbatim>\<open>approach_used = no_results\<close>, confidence 0 and
  source count 0. In the code, both entry points the orchestrator chooses between return
  their no-results record at once for an empty list: the pipeline's
  \<^verbatim>\<open>summarize_search_results\<close> does not build a context or run a stage, and the records of
  both have confidence 0, source count 0, no insights and no sources.
\<close>

theorem no_results_law:
  "hybrid_summarize config content_length heuristic_path pipeline_path [] q lang mr fl fa =
      (no_results_result q lang, [])
   \<and> approach_used (no_results_result q lang) = NoResults
   \<and> confidence (no_results_result q lang) = 0
   \<and> n_source_count (no_results_result q lang) = 0
   \<and> summarize_search_results rt clock [] q lang mr = Inr (generate_no_results_summary (clock AtStart) q lang)
   \<and> confidence_score (generate_no_results_summary now q lang) = 0
   \<and> source_count (generate_no_results_summary now q lang) = 0
   \<and> key_insights (generate_no_results_summary now q lang) = []
   \<and> sources (generate_no_results_summary now q lang) = []
   \<and> summarization_method (generate_no_results_summary now q lang) = ascii ''no_results_fallback''
   \<and> confidence_score (ai_generate_no_results_summary now q lang) = 0
   \<and> source_count (ai_generate_no_results_summary now q lang) = 0
   \<and> key_insights (ai_generate_no_results_summary now q lang) = []
   \<and> sources (ai_generate_no_results_summary now q lang) = []"
  by (simp add: hybrid_summarize_def no_results_result_def summarize_search_results_def
        generate_no_results_summary_def ai_generate_no_results_summary_def)

lemma malformed_fails:
  "process_results ascii_rt (ascii ''weather'') 0 (slice_to malformed_results 3) = Inl AttributeError"
  by (simp add: malformed_results_def slice_to_def process_result_def and_then_def)

text \<open>
  C10: in a run of \<^verbatim>\<open>summarize_search_results\<close> that returns the compiled pipeline result,
  data preparation has produced processed results \<open>ps\<close>, and \<^verbatim>\<open>InsightExtractorAgent\<close>, the
  second branch of the parallel phase, has run on the context as data preparation left it
  (the copy taken before \<^verbatim>\<open>ContentAnalyzerAgent\<close>'s results exist), which binds neither
  \<^verbatim>\<open>themes\<close> nor \<^verbatim>\<open>entities\<close>. The result's \<^verbatim>\<open>key_insights\<close> has at most one element and
  holds no top-themes and no entity insight. When the sources are hashable (strings, as the
  data model has it) it is the source-diversity note for the number of distinct sources if
  that number exceeds 1, and empty otherwise; a source that is a list or a dictionary makes
  the branch raise, and the list is empty.
\<close>

theorem key_insights_source_diversity_only:
  assumes "summarize_search_results rt clock rs q lang mr = Inr r"
    and "summarization_method r = ascii ''multi_agent_agentic''"
  shows "\<exists>ps. process_results rt q 0 (slice_to rs mr) = Inr ps
     \<and> map_of (fetched_context clock rs q lang mr ps) (ascii ''themes'') = None
     \<and> map_of (fetched_context clock rs q lang mr ps) (ascii ''entities'') = None
     \<and> branch_outcome [content_analyzer rt clock, insight_extractor clock] empty_store
           (fetched_context clock rs q lang mr ps) 1
         = insight_extractor_run (clock AtInsight) (fetched_context clock rs q lang mr ps)
     \<and> length (key_insights r) \<le> 1
     \<and> (\<forall>ts. format_themes_insight ts lang \<notin> set (key_insights r))
     \<and> (\<forall>es. format_entity_insight es lang \<notin> set (key_insights r))
     \<and> (list_all hashable (map pr_source ps) \<longrightarrow>
          key_insights r =
            (if 1 < card (set (map pr_source ps))
             then [format_source_insight (card (set (map pr_source ps))) lang] else []))
     \<and> (\<not> list_all hashable (map pr_source ps) \<longrightarrow> key_insights r = [])"
proof -
  have ne: "rs \<noteq> []"
  proof
    assume "rs = []"
    with assms show False
      by (auto simp: summarize_search_results_def generate_no_results_summary_def methods_differ)
  qed
  with assms(1) have run: "agentic_run_async rt clock (initial_context clock rs q lang mr) = Inr r"
    by (simp add: summarize_search_results_def)
  show ?thesis
  proof (cases "process_results rt q 0 (slice_to rs mr)")
    case (Inl e)
    from pipeline_failure [OF this, of clock lang] run
    have "summarization_method r = ascii ''error_fallback''"
      by (auto simp: agentic_run_async_def error_result_initial)
    with assms(2) methods_differ(2) show ?thesis by simp
  next
    case (Inr ps)
    from pipeline_success [OF this, of clock lang] run
    have k: "key_insights r = (if list_all hashable (map pr_source ps) then source_insights ps lang else [])"
      by (auto simp: agentic_run_async_def)
    have a: "length (key_insights r) \<le> 1"
      unfolding k using source_insights_shape(1) [of ps lang] by simp
    have b: "\<forall>ts. format_themes_insight ts lang \<notin> set (key_insights r)"
      unfolding k using source_insights_shape(2) [of _ lang ps] by simp
    have c: "\<forall>es. format_entity_insight es lang \<notin> set (key_insights r)"
      unfolding k using source_insights_shape(3) [of _ lang ps] by simp
    have d: "list_all hashable (map pr_source ps) \<longrightarrow>
          key_insights r =
            (if 1 < card (set (map pr_source ps))
             then [format_source_insight (card (set (map pr_source ps))) lang] else [])"
      unfolding k by (simp add: source_insights_def length_remdups_card_conv)
    have e: "\<not> list_all hashable (map pr_source ps) \<longrightarrow> key_insights r = []"
      unfolding k by simp
    from Inr fetched_context_lookups(1,2) [of clock rs q lang mr ps]
      insight_branch [of rt clock "fetched_context clock rs q lang mr ps"] a b c d e
    show ?thesis by blast
  qed
qed

lemma example_processed:
  "process_results ascii_rt (ascii ''ice'') 0 (slice_to example_results 3) =
     Inr [\<lparr> pr_title = ascii ''Arctic ice'', pr_snippet = ascii ''Ice sheets are melting'',
             pr_source = PStr (ascii ''a.org''), pr_position = 0, pr_relevance_score = 1 \<rparr>,
          \<lparr> pr_title = ascii ''Sea levels'', pr_snippet = ascii ''Seas are rising'',
             pr_source = PStr (ascii ''b.org''), pr_position = 1, pr_relevance_score = 0 \<rparr>]"
  by (simp add: example_results_def slice_to_def process_result_def clean_text_def
        calculate_initial_relevance_def and_then_def py_split_def strip_def ascii_def is_space_def
        ascii_rt_def url_at_def dict_get_def Let_def)

text \<open>
  C10, witness: two records from two sources. The pipeline returns its compiled result,
  whose only insight is the source-diversity note for 2 sources.
\<close>

theorem key_insights_source_diversity_only_witness:
  "\<exists>r. summarize_search_results ascii_rt example_clock example_results (ascii ''ice'') (ascii ''english'') 3 = Inr r
      \<and> summarization_method r = ascii ''multi_agent_agentic''
      \<and> key_insights r = [format_source_insight 2 (ascii ''english'')]"
proof -
  let ?ps = "[\<lparr> pr_title = ascii ''Arctic ice'', pr_snippet = ascii ''Ice sheets are melting'',
             pr_source = PStr (ascii ''a.org''), pr_position = 0, pr_relevance_score = 1 \<rparr>,
          \<lparr> pr_title = ascii ''Sea levels'', pr_snippet = ascii ''Seas are rising'',
             pr_source = PStr (ascii ''b.org''), pr_position = 1, pr_relevance_score = 0 \<rparr>]"
  from pipeline_success [OF example_processed, of example_clock "ascii ''english''"]
  obtain r where b: "try_body ascii_rt example_clock
        (initial_context example_clock example_results (ascii ''ice'') (ascii ''english'') 3) = Inr r"
    and m: "summarization_method r = ascii ''multi_agent_agentic''"
    by blast
  have ne: "example_results \<noteq> []" by (simp add: example_results_def)
  from b ne have s: "summarize_search_results ascii_rt example_clock example_results (ascii ''ice'') (ascii ''english'') 3 = Inr r"
    by (simp add: summarize_search_results_def agentic_run_async_def)
  from key_insights_source_diversity_only [OF s m]
  obtain ps where p: "process_results ascii_rt (ascii ''ice'') 0 (slice_to example_results 3) = Inr ps"
    and k: "list_all hashable (map pr_source ps) \<longrightarrow>
          key_insights r =
            (if 1 < card (set (map pr_source ps))
             then [format_source_insight (card (set (map pr_source ps))) (ascii ''english'')] else [])"
    by blast
  from p example_processed have ps: "ps = ?ps" by simp
  have c: "card (set (map pr_source ?ps)) = 2" by (simp add: ascii_eq)
  have h: "list_all hashable (map pr_source ?ps)" by simp
  from k h have "key_insights r = [format_source_insight 2 (ascii ''english'')]"
    unfolding ps c by simp
  with s m show ?thesis by blast
qed

text \<open>C1, witness: the empty list with the example clock.\<close>

theorem no_results_law_witness:
  "summarize_search_results ascii_rt example_clock [] (ascii ''ice'') (ascii ''telugu'') 3 =
      Inr (generate_no_results_summary (example_clock AtStart) (ascii ''ice'') (ascii ''telugu''))
   \<and> confidence_score (generate_no_results_summary (example_clock AtStart) (ascii ''ice'') (ascii ''telugu'')) = 0
   \<and> source_count (generate_no_results_summary (example_clock AtStart) (ascii ''ice'') (ascii ''telugu'')) = 0"
  using no_results_law [of _ _ _ _ "ascii ''ice''" "ascii ''telugu''" 3 _ _ ascii_rt example_clock "example_clock AtStart"]
  by blast

section \<open>The length of the summary\<close>

lemma generated_summary_short:
  "length (format_summary_for_language (get_no_content_message lang) lang) < 50"
  by (simp add: format_summary_for_language_def get_no_content_message_def get_or_english_def
        dict_get_def prefixes_def no_content_messages_def length_ascii ascii_eq)

lemma clarification_length: "length (get_or_english clarifications lang) \<le> 31"
  by (simp add: get_or_english_def clarifications_def length_ascii ascii_eq)

lemma no_results_message_length: "length (get_or_english no_results_messages lang) \<le> 71"
  by (simp add: get_or_english_def no_results_messages_def length_ascii ascii_eq)

lemma error_message_length: "length (get_or_english error_messages lang) \<le> 69"
  by (simp add: get_or_english_def error_messages_def length_ascii ascii_eq)

lemma short_summary_improved:
  assumes "length g < 50"
  shows "apply_improvements g (generate_improvement_suggestions rt g q lang) lang =
           g @ get_or_english clarifications lang"
  using assms
  by (simp add: apply_improvements_def generate_improvement_suggestions_def Let_def ascii_eq)

lemma pipeline_summary_length:
  assumes "summarize_search_results rt clock rs q lang mr = Inr r"
  shows "length (ai_summary r) \<le> 80"
proof (cases "rs = []")
  case True
  with assms no_results_message_length [of lang] show ?thesis
    by (auto simp: summarize_search_results_def generate_no_results_summary_def)
next
  case False
  with assms have run: "agentic_run_async rt clock (initial_context clock rs q lang mr) = Inr r"
    by (simp add: summarize_search_results_def)
  show ?thesis
  proof (cases "process_results rt q 0 (slice_to rs mr)")
    case (Inl e)
    from pipeline_failure [OF this, of clock lang] run
    have "ai_summary r = get_or_english error_messages lang"
      by (auto simp: agentic_run_async_def error_result_initial)
    with error_message_length [of lang] show ?thesis by simp
  next
    case (Inr ps)
    let ?g = "format_summary_for_language (get_no_content_message lang) lang"
    from pipeline_success [OF Inr, of clock lang] run
    have "ai_summary r = apply_improvements ?g (generate_improvement_suggestions rt ?g q lang) lang"
      by (auto simp: agentic_run_async_def)
    then have "ai_summary r = ?g @ get_or_english clarifications lang"
      by (simp only: short_summary_improved [OF generated_summary_short])
    with generated_summary_short [of lang] clarification_length [of lang] show ?thesis by simp
  qed
qed






















section \<open>Failures of the pipeline\<close>

lemma error_message_text:
  "get_or_english error_messages (ascii ''hindi'') =
     [128221] @ ascii '' **AI '' @ [2360, 2366, 2352, 2366, 2306, 2358] @ ascii ''**: ''
       @ [2340, 2325, 2344, 2368, 2325, 2368, 32, 2360, 2350, 2360, 2381, 2351, 2366, 32, 2325,
          2375, 32, 2325, 2366, 2352, 2339, 32, 2360, 2366, 2352, 2366, 2306, 2358, 32, 2344,
          2361, 2368, 2306, 32, 2348, 2344, 2366, 32, 2360, 2325, 2366, 2404]"
  "get_or_english error_messages (ascii ''telugu'') =
     [128221] @ ascii '' **AI '' @ [3128, 3134, 3120, 3134, 3074, 3126, 3074] @ ascii ''**: ''
       @ [3128, 3134, 3074, 3093, 3143, 3108, 3135, 3093, 32, 3128, 3118, 3128, 3149, 3119, 32,
          3093, 3134, 3120, 3107, 3074, 3095, 3134, 32, 3128, 3134, 3120, 3134, 3074, 3126, 3074,
          32, 3120, 3138, 3114, 3146, 3074, 3110, 3135, 3074, 3098, 3122, 3143, 3093, 3114, 3147,
          3119, 3134, 3074, 2404]"
  "get_or_english error_messages (ascii ''marathi'') =
     [128221] @ ascii '' **AI '' @ [2360, 2366, 2352, 2366, 2306, 2358] @ ascii ''**: ''
       @ [2340, 2366, 2306, 2340, 2381, 2352, 2367, 2325, 32, 2360, 2350, 2360, 2381, 2351, 2375,
          2350, 2369, 2355, 2375, 32, 2360, 2366, 2352, 2366, 2306, 2358, 32, 2340, 2351, 2366,
          2352, 32, 2325, 2352, 2370, 32, 2358, 2325, 2354, 2379, 32, 2344, 2366, 2361, 2368,
          2404]"
  "lang \<notin> {ascii ''hindi'', ascii ''telugu'', ascii ''marathi''} \<Longrightarrow>
     get_or_english error_messages lang =
       [128221] @ ascii '' **AI Summary**: Unable to generate summary due to technical issues.''"
  by (simp_all add: get_or_english_def error_messages_def ascii_eq)

lemma list_source_fetch:
  "process_results ascii_rt (ascii ''content'') 0 (slice_to list_source_results 3) = Inr list_source_processed"
  by (simp add: list_source_results_def list_source_processed_def slice_to_def process_result_def
        clean_text_def calculate_initial_relevance_def and_then_def py_split_def ascii_def
        is_space_def ascii_rt_def dict_get_def Let_def)

lemma no_content_summary_english:
  "format_summary_for_language (get_no_content_message (ascii ''english'')) (ascii ''english'') =
     [128221] @ ascii '' **AI Summary**: Insufficient content available.''"
  by (simp add: format_summary_for_language_def get_no_content_message_def get_or_english_def
        dict_get_def prefixes_def no_content_messages_def ascii_eq)
     (simp add: ascii_def)

lemma no_content_quality:
  "analyze_summary_quality ascii_rt
     ([128221] @ ascii '' **AI Summary**: Insufficient content available.'') (ascii ''content'') [] = 4 / 10"
  by (simp add: analyze_summary_quality_def py_split_def overlap_count_def ascii_rt_def ascii_def
        is_space_def Let_def)

lemma no_content_final_english:
  "apply_improvements ([128221] @ ascii '' **AI Summary**: Insufficient content available.'')
     (generate_improvement_suggestions rt
        ([128221] @ ascii '' **AI Summary**: Insufficient content available.'') q (ascii ''english''))
     (ascii ''english'') =
   [128221] @ ascii '' **AI Summary**: Insufficient content available. (based on limited information)''"
proof -
  have "length ([128221] @ ascii '' **AI Summary**: Insufficient content available.'') < 50"
    by (simp add: length_ascii)
  then have "apply_improvements ([128221] @ ascii '' **AI Summary**: Insufficient content available.'')
     (generate_improvement_suggestions rt
        ([128221] @ ascii '' **AI Summary**: Insufficient content available.'') q (ascii ''english''))
     (ascii ''english'') =
     ([128221] @ ascii '' **AI Summary**: Insufficient content available.'')
       @ get_or_english clarifications (ascii ''english'')"
    by (rule short_summary_improved)
  also have "get_or_english clarifications (ascii ''english'') = ascii '' (based on limited information)''"
    by (simp add: get_or_english_def clarifications_def ascii_eq)
  finally show ?thesis by (simp add: ascii_def)
qed

text \<open>
  C2, as stated, fails: not every internal failure is converted into the error record. For
  a record whose source is a list and the query \<^verbatim>\<open>content\<close>, \<^verbatim>\<open>InsightExtractorAgent\<close>
  raises \<^verbatim>\<open>TypeError\<close> inside the parallel phase; \<^verbatim>\<open>ParallelAgent\<close> keeps the exception
  under \<^verbatim>\<open>parallel_results\<close> and the run goes on. The caller gets the compiled result:
  method \<^verbatim>\<open>multi_agent_agentic\<close>, no \<^verbatim>\<open>error\<close> field, the no-content summary with its
  caveat instead of the error message, and confidence 0.4.
\<close>

theorem parallel_failure_not_reported_counterexample:
  "process_results ascii_rt (ascii ''content'') 0 (slice_to list_source_results 3) = Inr list_source_processed
   \<and> branch_outcome [content_analyzer ascii_rt example_clock, insight_extractor example_clock] empty_store
        (fetched_context example_clock list_source_results (ascii ''content'') (ascii ''english'') 3
           list_source_processed) 1 = Inl TypeError
   \<and> (\<exists>r. summarize_search_results ascii_rt example_clock list_source_results (ascii ''content'')
             (ascii ''english'') 3 = Inr r
         \<and> confidence_score r = 4 / 10
         \<and> r_error r = None
         \<and> summarization_method r = ascii ''multi_agent_agentic''
         \<and> ai_summary r =
             [128221] @ ascii '' **AI Summary**: Insufficient content available. (based on limited information)''
         \<and> ai_summary r \<noteq> get_or_english error_messages (ascii ''english''))"
proof -
  have nh: "\<not> list_all hashable (map pr_source list_source_processed)"
    by (simp add: list_source_processed_def)
  have b: "branch_outcome [content_analyzer ascii_rt example_clock, insight_extractor example_clock] empty_store
        (fetched_context example_clock list_source_results (ascii ''content'') (ascii ''english'') 3
           list_source_processed) 1 = Inl TypeError"
    by (simp only: insight_branch insight_extractor_run_fetched nh if_False)
  from pipeline_success [OF list_source_fetch, of example_clock "ascii ''english''"]
  obtain r where t: "try_body ascii_rt example_clock
        (initial_context example_clock list_source_results (ascii ''content'') (ascii ''english'') 3) = Inr r"
    and m: "summarization_method r = ascii ''multi_agent_agentic''"
    and a: "ai_summary r =
          apply_improvements (format_summary_for_language (get_no_content_message (ascii ''english'')) (ascii ''english''))
            (generate_improvement_suggestions ascii_rt
               (format_summary_for_language (get_no_content_message (ascii ''english'')) (ascii ''english''))
               (ascii ''content'') (ascii ''english'')) (ascii ''english'')"
    and c: "confidence_score r =
          analyze_summary_quality ascii_rt
            (format_summary_for_language (get_no_content_message (ascii ''english'')) (ascii ''english''))
            (ascii ''content'') []"
    and e: "r_error r = None"
    by blast
  have ne: "list_source_results \<noteq> []" by (simp add: list_source_results_def)
  from t ne have s: "summarize_search_results ascii_rt example_clock list_source_results (ascii ''content'')
             (ascii ''english'') 3 = Inr r"
    by (simp add: summarize_search_results_def agentic_run_async_def)
  from c have c': "confidence_score r = 4 / 10"
    by (simp only: no_content_summary_english no_content_quality)
  from a have a': "ai_summary r =
             [128221] @ ascii '' **AI Summary**: Insufficient content available. (based on limited information)''"
    by (simp only: no_content_summary_english no_content_final_english)
  have "ascii ''english'' \<notin> {ascii ''hindi'', ascii ''telugu'', ascii ''marathi''}"
    by (simp add: ascii_eq)
  then have "get_or_english error_messages (ascii ''english'') =
       [128221] @ ascii '' **AI Summary**: Unable to generate summary due to technical issues.''"
    by (rule error_message_text(4))
  then have d: "ai_summary r \<noteq> get_or_english error_messages (ascii ''english'')"
    by (simp add: a' ascii_eq)
  from list_source_fetch b s c' e m a' d show ?thesis by blast
qed

text \<open>
  C2, amended: for every list of result records, query, language and limit,
  \<^verbatim>\<open>summarize_search_results\<close> returns a result and raises nothing, and the result carries
  the query and the language. The failure that reaches the handler of \<^verbatim>\<open>run_async\<close> is
  a failure of data preparation: when it raises \<open>e\<close>, the body of the \<^verbatim>\<open>try\<close> raises \<open>e\<close>
  and the result is the error record, with confidence 0, no insights, no sources, \<open>e\<close>
  under \<^verbatim>\<open>error\<close>, and as summary the error message of the language, the english one for
  a tag that is not hindi, telugu or marathi. When data preparation succeeds the body of
  the \<^verbatim>\<open>try\<close> returns, whatever the later stages do: the result is the compiled one, with
  no \<^verbatim>\<open>error\<close> field and the quality score of the critic as confidence; a failure of the
  insight stage (a source that is a list or a dictionary) is kept inside the parallel
  phase and only empties \<^verbatim>\<open>key_insights\<close>.
\<close>

theorem summarize_failure_handling:
  "\<exists>r. summarize_search_results rt clock rs q lang mr = Inr r
      \<and> r_query r = q \<and> r_language r = lang
      \<and> (\<forall>e. rs \<noteq> [] \<and> process_results rt q 0 (slice_to rs mr) = Inl e \<longrightarrow>
             try_body rt clock (initial_context clock rs q lang mr) = Inl e
           \<and> confidence_score r = 0 \<and> source_count r = 0 \<and> key_insights r = [] \<and> sources r = []
           \<and> summarization_method r = ascii ''error_fallback'' \<and> r_error r = Some e
           \<and> (lang = ascii ''hindi'' \<longrightarrow> ai_summary r =
                [128221] @ ascii '' **AI '' @ [2360, 2366, 2352, 2366, 2306, 2358] @ ascii ''**: ''
                  @ [2340, 2325, 2344, 2368, 2325, 2368, 32, 2360, 2350, 2360, 2381, 2351, 2366, 32,
                     2325, 2375, 32, 2325, 2366, 2352, 2339, 32, 2360, 2366, 2352, 2366, 2306, 2358,
                     32, 2344, 2361, 2368, 2306, 32, 2348, 2344, 2366, 32, 2360, 2325, 2366, 2404])
           \<and> (lang = ascii ''telugu'' \<longrightarrow> ai_summary r =
                [128221] @ ascii '' **AI '' @ [3128, 3134, 3120, 3134, 3074, 3126, 3074] @ ascii ''**: ''
                  @ [3128, 3134, 3074, 3093, 3143, 3108, 3135, 3093, 32, 3128, 3118, 3128, 3149, 3119,
                     32, 3093, 3134, 3120, 3107, 3074, 3095, 3134, 32, 3128, 3134, 3120, 3134, 3074,
                     3126, 3074, 32, 3120, 3138, 3114, 3146, 3074, 3110, 3135, 3074, 3098, 3122, 3143,
                     3093, 3114, 3147, 3119, 3134, 3074, 2404])
           \<and> (lang = ascii ''marathi'' \<longrightarrow> ai_summary r =
                [128221] @ ascii '' **AI '' @ [2360, 2366, 2352, 2366, 2306, 2358] @ ascii ''**: ''
                  @ [2340, 2366, 2306, 2340, 2381, 2352, 2367, 2325, 32, 2360, 2350, 2360, 2381, 2351,
                     2375, 2350, 2369, 2355, 2375, 32, 2360, 2366, 2352, 2366, 2306, 2358, 32, 2340,
                     2351, 2366, 2352, 32, 2325, 2352, 2370, 32, 2358, 2325, 2354, 2379, 32, 2344,
                     2366, 2361, 2368, 2404])
           \<and> (lang \<notin> {ascii ''hindi'', ascii ''telugu'', ascii ''marathi''} \<longrightarrow> ai_summary r =
                [128221] @ ascii '' **AI Summary**: Unable to generate summary due to technical issues.''))
      \<and> (\<forall>ps. rs \<noteq> [] \<and> process_results rt q 0 (slice_to rs mr) = Inr ps \<longrightarrow>
             try_body rt clock (initial_context clock rs q lang mr) = Inr r
           \<and> summarization_method r = ascii ''multi_agent_agentic'' \<and> r_error r = None
           \<and> source_count r = length ps
           \<and> confidence_score r =
                analyze_summary_quality rt (format_summary_for_language (get_no_content_message lang) lang) q []
           \<and> (\<not> list_all hashable (map pr_source ps) \<longrightarrow>
                 branch_outcome [content_analyzer rt clock, insight_extractor clock] empty_store
                     (fetched_context clock rs q lang mr ps) 1 = Inl TypeError
               \<and> key_insights r = []))"
proof (cases "rs = []")
  case True
  then show ?thesis
    by (simp add: summarize_search_results_def generate_no_results_summary_def)
next
  case False
  show ?thesis
  proof (cases "process_results rt q 0 (slice_to rs mr)")
    case (Inl e)
    let ?r = "\<lparr> r_query = q, r_language = lang,
           ai_summary = get_or_english error_messages lang,
           key_insights = [], confidence_score = 0, source_count = 0, sources = [],
           timestamp = clock AtResult, summarization_method = ascii ''error_fallback'',
           r_execution_details = None, r_error = Some e \<rparr>"
    have t: "try_body rt clock (initial_context clock rs q lang mr) = Inl e"
      using Inl by (rule pipeline_failure)
    with False have s: "summarize_search_results rt clock rs q lang mr = Inr ?r"
      by (simp add: summarize_search_results_def agentic_run_async_def error_result_initial)
    have m: "ai_summary ?r = get_or_english error_messages lang" by simp
    have "r_query ?r = q \<and> r_language ?r = lang
      \<and> (\<forall>e'. rs \<noteq> [] \<and> process_results rt q 0 (slice_to rs mr) = Inl e' \<longrightarrow>
             try_body rt clock (initial_context clock rs q lang mr) = Inl e'
           \<and> confidence_score ?r = 0 \<and> source_count ?r = 0 \<and> key_insights ?r = [] \<and> sources ?r = []
           \<and> summarization_method ?r = ascii ''error_fallback'' \<and> r_error ?r = Some e')"
      using Inl t by simp
    moreover have "lang = ascii ''hindi'' \<longrightarrow> ai_summary ?r =
                [128221] @ ascii '' **AI '' @ [2360, 2366, 2352, 2366, 2306, 2358] @ ascii ''**: ''
                  @ [2340, 2325, 2344, 2368, 2325, 2368, 32, 2360, 2350, 2360, 2381, 2351, 2366, 32,
                     2325, 2375, 32, 2325, 2366, 2352, 2339, 32, 2360, 2366, 2352, 2366, 2306, 2358,
                     32, 2344, 2361, 2368, 2306, 32, 2348, 2344, 2366, 32, 2360, 2325, 2366, 2404]"
      unfolding m using error_message_text(1) by blast
    moreover have "lang = ascii ''telugu'' \<longrightarrow> ai_summary ?r =
                [128221] @ ascii '' **AI '' @ [3128, 3134, 3120, 3134, 3074, 3126, 3074] @ ascii ''**: ''
                  @ [3128, 3134, 3074, 3093, 3143, 3108, 3135, 3093, 32, 3128, 3118, 3128, 3149, 3119,
                     32, 3093, 3134, 3120, 3107, 3074, 3095, 3134, 32, 3128, 3134, 3120, 3134, 3074,
                     3126, 3074, 32, 3120, 3138, 3114, 3146, 3074, 3110, 3135, 3074, 3098, 3122, 3143,
                     3093, 3114, 3147, 3119, 3134, 3074, 2404]"
      unfolding m using error_message_text(2) by blast
    moreover have "lang = ascii ''marathi'' \<longrightarrow> ai_summary ?r =
                [128221] @ ascii '' **AI '' @ [2360, 2366, 2352, 2366, 2306, 2358] @ ascii ''**: ''
                  @ [2340, 2366, 2306, 2340, 2381, 2352, 2367, 2325, 32, 2360, 2350, 2360, 2381, 2351,
                     2375, 2350, 2369, 2355, 2375, 32, 2360, 2366, 2352, 2366, 2306, 2358, 32, 2340,
                     2351, 2366, 2352, 32, 2325, 2352, 2370, 32, 2358, 2325, 2354, 2379, 32, 2344,
                     2366, 2361, 2368, 2404]"
      unfolding m using error_message_text(3) by blast
    moreover have "lang \<notin> {ascii ''hindi'', ascii ''telugu'', ascii ''marathi''} \<longrightarrow> ai_summary ?r =
                [128221] @ ascii '' **AI Summary**: Unable to generate summary due to technical issues.''"
      unfolding m using error_message_text(4) by blast
    moreover have "\<forall>ps. rs \<noteq> [] \<and> process_results rt q 0 (slice_to rs mr) = Inr ps \<longrightarrow>
             try_body rt clock (initial_context clock rs q lang mr) = Inr ?r
           \<and> summarization_method ?r = ascii ''multi_agent_agentic'' \<and> r_error ?r = None
           \<and> source_count ?r = length ps
           \<and> confidence_score ?r =
                analyze_summary_quality rt (format_summary_for_language (get_no_content_message lang) lang) q []
           \<and> (\<not> list_all hashable (map pr_source ps) \<longrightarrow>
                 branch_outcome [content_analyzer rt clock, insight_extractor clock] empty_store
                     (fetched_context clock rs q lang mr ps) 1 = Inl TypeError
               \<and> key_insights ?r = [])"
      using Inl by simp
    ultimately show ?thesis using s by blast
  next
    case (Inr ps)
    from pipeline_success [OF Inr, of clock lang]
    obtain r where t: "try_body rt clock (initial_context clock rs q lang mr) = Inr r"
      and k: "key_insights r = (if list_all hashable (map pr_source ps) then source_insights ps lang else [])"
      and m: "summarization_method r = ascii ''multi_agent_agentic''"
      and ql: "r_query r = q" "r_language r = lang"
      and n: "source_count r = length ps"
      and c: "confidence_score r =
          analyze_summary_quality rt (format_summary_for_language (get_no_content_message lang) lang) q []"
      and e: "r_error r = None"
      by blast
    from t False have s: "summarize_search_results rt clock rs q lang mr = Inr r"
      by (simp add: summarize_search_results_def agentic_run_async_def)
    have f: "\<forall>e. rs \<noteq> [] \<and> process_results rt q 0 (slice_to rs mr) = Inl e \<longrightarrow>
             try_body rt clock (initial_context clock rs q lang mr) = Inl e
           \<and> confidence_score r = 0 \<and> source_count r = 0 \<and> key_insights r = [] \<and> sources r = []
           \<and> summarization_method r = ascii ''error_fallback'' \<and> r_error r = Some e
           \<and> (lang = ascii ''hindi'' \<longrightarrow> ai_summary r =
                [128221] @ ascii '' **AI '' @ [2360, 2366, 2352, 2366, 2306, 2358] @ ascii ''**: ''
                  @ [2340, 2325, 2344, 2368, 2325, 2368, 32, 2360, 2350, 2360, 2381, 2351, 2366, 32,
                     2325, 2375, 32, 2325, 2366, 2352, 2339, 32, 2360, 2366, 2352, 2366, 2306, 2358,
                     32, 2344, 2361, 2368, 2306, 32, 2348, 2344, 2366, 32, 2360, 2325, 2366, 2404])
           \<and> (lang = ascii ''telugu'' \<longrightarrow> ai_summary r =
                [128221] @ ascii '' **AI '' @ [3128, 3134, 3120, 3134, 3074, 3126, 3074] @ ascii ''**: ''
                  @ [3128, 3134, 3074, 3093, 3143, 3108, 3135, 3093, 32, 3128, 3118, 3128, 3149, 3119,
                     32, 3093, 3134, 3120, 3107, 3074, 3095, 3134, 32, 3128, 3134, 3120, 3134, 3074,
                     3126, 3074, 32, 3120, 3138, 3114, 3146, 3074, 3110, 3135, 3074, 3098, 3122, 3143,
                     3093, 3114, 3147, 3119, 3134, 3074, 2404])
           \<and> (lang = ascii ''marathi'' \<longrightarrow> ai_summary r =
                [128221] @ ascii '' **AI '' @ [2360, 2366, 2352, 2366, 2306, 2358] @ ascii ''**: ''
                  @ [2340, 2366, 2306, 2340, 2381, 2352, 2367, 2325, 32, 2360, 2350, 2360, 2381, 2351,
                     2375, 2350, 2369, 2355, 2375, 32, 2360, 2366, 2352, 2366, 2306, 2358, 32, 2340,
                     2351, 2366, 2352, 32, 2325, 2352, 2370, 32, 2358, 2325, 2354, 2379, 32, 2344,
                     2366, 2361, 2368, 2404])
           \<and> (lang \<notin> {ascii ''hindi'', ascii ''telugu'', ascii ''marathi''} \<longrightarrow> ai_summary r =
                [128221] @ ascii '' **AI Summary**: Unable to generate summary due to technical issues.'')"
      using Inr by simp
    have g: "\<forall>ps'. rs \<noteq> [] \<and> process_results rt q 0 (slice_to rs mr) = Inr ps' \<longrightarrow>
             try_body rt clock (initial_context clock rs q lang mr) = Inr r
           \<and> summarization_method r = ascii ''multi_agent_agentic'' \<and> r_error r = None
           \<and> source_count r = length ps'
           \<and> confidence_score r =
                analyze_summary_quality rt (format_summary_for_language (get_no_content_message lang) lang) q []
           \<and> (\<not> list_all hashable (map pr_source ps') \<longrightarrow>
                 branch_outcome [content_analyzer rt clock, insight_extractor clock] empty_store
                     (fetched_context clock rs q lang mr ps') 1 = Inl TypeError
               \<and> key_insights r = [])"
    proof (intro allI impI)
      fix ps'
      assume "rs \<noteq> [] \<and> process_results rt q 0 (slice_to rs mr) = Inr ps'"
      with Inr have eq: "ps' = ps" by simp
      have bo: "branch_outcome [content_analyzer rt clock, insight_extractor clock] empty_store
                     (fetched_context clock rs q lang mr ps) 1 =
                (if list_all hashable (map pr_source ps)
                 then Inr (fetched_context clock rs q lang mr ps @
                             [(ascii ''key_insights'', VStrs (source_insights ps lang)),
                              (ascii ''insight_timestamp'', VStr (clock AtInsight))])
                 else Inl TypeError)"
        by (simp only: insight_branch insight_extractor_run_fetched)
      have "\<not> list_all hashable (map pr_source ps) \<longrightarrow>
                 branch_outcome [content_analyzer rt clock, insight_extractor clock] empty_store
                     (fetched_context clock rs q lang mr ps) 1 = Inl TypeError
               \<and> key_insights r = []"
        using bo k by simp
      with t m e n c show "try_body rt clock (initial_context clock rs q lang mr) = Inr r
           \<and> summarization_method r = ascii ''multi_agent_agentic'' \<and> r_error r = None
           \<and> source_count r = length ps'
           \<and> confidence_score r =
                analyze_summary_quality rt (format_summary_for_language (get_no_content_message lang) lang) q []
           \<and> (\<not> list_all hashable (map pr_source ps') \<longrightarrow>
                 branch_outcome [content_analyzer rt clock, insight_extractor clock] empty_store
                     (fetched_context clock rs q lang mr ps') 1 = Inl TypeError
               \<and> key_insights r = [])"
        unfolding eq by blast
    qed
    from s ql f g show ?thesis by blast
  qed
qed

text \<open>
  C2, witness: a record that is \<^verbatim>\<open>None\<close>, for which data preparation raises
  \<^verbatim>\<open>AttributeError\<close> and the caller gets the hindi error record with its message; and the
  record with a list as source, for which the insight stage raises inside the parallel
  phase and the caller gets the compiled result, with confidence 0.4.
\<close>

theorem summarize_failure_handling_witness:
  "malformed_results \<noteq> []
   \<and> process_results ascii_rt (ascii ''weather'') 0 (slice_to malformed_results 3) = Inl AttributeError
   \<and> (\<exists>r. summarize_search_results ascii_rt example_clock malformed_results (ascii ''weather'') (ascii ''hindi'') 3 = Inr r
        \<and> ai_summary r =
            [128221] @ ascii '' **AI '' @ [2360, 2366, 2352, 2366, 2306, 2358] @ ascii ''**: ''
              @ [2340, 2325, 2344, 2368, 2325, 2368, 32, 2360, 2350, 2360, 2381, 2351, 2366, 32,
                 2325, 2375, 32, 2325, 2366, 2352, 2339, 32, 2360, 2366, 2352, 2366, 2306, 2358,
                 32, 2344, 2361, 2368, 2306, 32, 2348, 2344, 2366, 32, 2360, 2325, 2366, 2404]
        \<and> confidence_score r = 0
        \<and> summarization_method r = ascii ''error_fallback''
        \<and> r_error r = Some AttributeError)
   \<and> list_source_results \<noteq> []
   \<and> process_results ascii_rt (ascii ''content'') 0 (slice_to list_source_results 3) = Inr list_source_processed
   \<and> \<not> list_all hashable (map pr_source list_source_processed)
   \<and> (\<exists>r. summarize_search_results ascii_rt example_clock list_source_results (ascii ''content'') (ascii ''english'') 3 = Inr r
        \<and> summarization_method r = ascii ''multi_agent_agentic''
        \<and> r_error r = None
        \<and> key_insights r = []
        \<and> source_count r = 1
        \<and> confidence_score r = 4 / 10)"
proof -
  have ne: "malformed_results \<noteq> []" by (simp add: malformed_results_def)
  from summarize_failure_handling [of ascii_rt example_clock malformed_results "ascii ''weather''" "ascii ''hindi''" 3]
  obtain r where
    r: "summarize_search_results ascii_rt example_clock malformed_results (ascii ''weather'') (ascii ''hindi'') 3 = Inr r"
    and h: "\<forall>e. malformed_results \<noteq> []
           \<and> process_results ascii_rt (ascii ''weather'') 0 (slice_to malformed_results 3) = Inl e \<longrightarrow>
             confidence_score r = 0
           \<and> summarization_method r = ascii ''error_fallback'' \<and> r_error r = Some e
           \<and> (ascii ''hindi'' = ascii ''hindi'' \<longrightarrow> ai_summary r =
                [128221] @ ascii '' **AI '' @ [2360, 2366, 2352, 2366, 2306, 2358] @ ascii ''**: ''
                  @ [2340, 2325, 2344, 2368, 2325, 2368, 32, 2360, 2350, 2360, 2381, 2351, 2366, 32,
                     2325, 2375, 32, 2325, 2366, 2352, 2339, 32, 2360, 2366, 2352, 2366, 2306, 2358,
                     32, 2344, 2361, 2368, 2306, 32, 2348, 2344, 2366, 32, 2360, 2325, 2366, 2404])"
    by blast
  from h ne malformed_fails have a: "ai_summary r =
                [128221] @ ascii '' **AI '' @ [2360, 2366, 2352, 2366, 2306, 2358] @ ascii ''**: ''
                  @ [2340, 2325, 2344, 2368, 2325, 2368, 32, 2360, 2350, 2360, 2381, 2351, 2366, 32,
                     2325, 2375, 32, 2325, 2366, 2352, 2339, 32, 2360, 2366, 2352, 2366, 2306, 2358,
                     32, 2344, 2361, 2368, 2306, 32, 2348, 2344, 2366, 32, 2360, 2325, 2366, 2404]
      \<and> confidence_score r = 0 \<and> summarization_method r = ascii ''error_fallback''
      \<and> r_error r = Some AttributeError"
    by blast
  with r have first: "\<exists>r. summarize_search_results ascii_rt example_clock malformed_results (ascii ''weather'') (ascii ''hindi'') 3 = Inr r
        \<and> ai_summary r =
            [128221] @ ascii '' **AI '' @ [2360, 2366, 2352, 2366, 2306, 2358] @ ascii ''**: ''
              @ [2340, 2325, 2344, 2368, 2325, 2368, 32, 2360, 2350, 2360, 2381, 2351, 2366, 32,
                 2325, 2375, 32, 2325, 2366, 2352, 2339, 32, 2360, 2366, 2352, 2366, 2306, 2358,
                 32, 2344, 2361, 2368, 2306, 32, 2348, 2344, 2366, 32, 2360, 2325, 2366, 2404]
        \<and> confidence_score r = 0
        \<and> summarization_method r = ascii ''error_fallback''
        \<and> r_error r = Some AttributeError"
    by blast
  have ne2: "list_source_results \<noteq> []" by (simp add: list_source_results_def)
  have nh: "\<not> list_all hashable (map pr_source list_source_processed)"
    by (simp add: list_source_processed_def)
  have len: "length list_source_processed = 1" by (simp add: list_source_processed_def)
  from summarize_failure_handling [of ascii_rt example_clock list_source_results "ascii ''content''" "ascii ''english''" 3]
  obtain r' where
    r': "summarize_search_results ascii_rt example_clock list_source_results (ascii ''content'') (ascii ''english'') 3 = Inr r'"
    and h': "\<forall>ps. list_source_results \<noteq> []
           \<and> process_results ascii_rt (ascii ''content'') 0 (slice_to list_source_results 3) = Inr ps \<longrightarrow>
             summarization_method r' = ascii ''multi_agent_agentic'' \<and> r_error r' = None
           \<and> source_count r' = length ps
           \<and> confidence_score r' =
                analyze_summary_quality ascii_rt
                  (format_summary_for_language (get_no_content_message (ascii ''english'')) (ascii ''english''))
                  (ascii ''content'') []
           \<and> (\<not> list_all hashable (map pr_source ps) \<longrightarrow> key_insights r' = [])"
    by blast
  from h' ne2 list_source_fetch nh have p: "summarization_method r' = ascii ''multi_agent_agentic'' \<and> r_error r' = None
      \<and> source_count r' = length list_source_processed \<and> key_insights r' = []"
    by blast
  from h' ne2 list_source_fetch have "confidence_score r' =
                analyze_summary_quality ascii_rt
                  (format_summary_for_language (get_no_content_message (ascii ''english'')) (ascii ''english''))
                  (ascii ''content'') []"
    by blast
  then have cs: "confidence_score r' = 4 / 10"
    by (simp only: no_content_summary_english no_content_quality)
  from r' len p cs have second: "\<exists>r. summarize_search_results ascii_rt example_clock list_source_results (ascii ''content'') (ascii ''english'') 3 = Inr r
        \<and> summarization_method r = ascii ''multi_agent_agentic''
        \<and> r_error r = None
        \<and> key_insights r = []
        \<and> source_count r = 1
        \<and> confidence_score r = 4 / 10"
    by simp
  from ne malformed_fails first ne2 list_source_fetch nh second show ?thesis by blast
qed

end
